theory Spec2Isabelle
  imports Main "HOL-Library.Sublist"
begin

section \<open>JavaScript values\<close>

text \<open>
  The client of \<^verbatim>\<open>src/dist/index.js\<close> moves plain data around: option objects, payloads,
  JSON schemas and parsed response bodies. A value is \<^verbatim>\<open>undefined\<close>, \<^verbatim>\<open>null\<close>, a boolean,
  a number, a string, an array or an object. Numbers are the integers that JavaScript
  prints in plain decimal notation; strings are byte strings (UTF-8), so that
  \<^verbatim>\<open>encodeURIComponent\<close> works on the bytes it escapes. An object is the list of its own
  enumerable properties in the order \<^verbatim>\<open>Object.keys\<close> enumerates them; a lookup takes the
  first binding of a key; every object inherits the members of \<^verbatim>\<open>Object.prototype\<close>
  (see below). A value is a tree: two places of it do not hold the same object.
  Arrays that carry named properties are not part of this data.
\<close>

datatype jsval =
    JUndefined
  | JNull
  | JBool bool
  | JNum int
  | JStr string
  | JArr "jsval list"
  | JObj "(string \<times> jsval) list"

text \<open>The operators \<^verbatim>\<open>===\<close> and \<^verbatim>\<open>!==\<close> on the primitive values the source compares.\<close>

definition strict_eq :: "jsval \<Rightarrow> jsval \<Rightarrow> bool" where
  "strict_eq a b = (a = b)"

definition strict_ne :: "jsval \<Rightarrow> jsval \<Rightarrow> bool" where
  "strict_ne a b = (\<not> strict_eq a b)"

text \<open>Truthiness, as \<^verbatim>\<open>!x\<close>, \<^verbatim>\<open>x && y\<close> and \<^verbatim>\<open>x || y\<close> test it.\<close>

fun js_truthy :: "jsval \<Rightarrow> bool" where
  "js_truthy JUndefined = False"
| "js_truthy JNull = False"
| "js_truthy (JBool b) = b"
| "js_truthy (JNum n) = (n \<noteq> 0)"
| "js_truthy (JStr s) = (s \<noteq> [])"
| "js_truthy (JArr xs) = True"
| "js_truthy (JObj kvs) = True"

subsection \<open>Numbers and strings\<close>

definition digit_char :: "nat \<Rightarrow> char" where
  "digit_char d = ''0123456789'' ! (d mod 10)"

fun string_of_nat :: "nat \<Rightarrow> string" where
  "string_of_nat n =
     (if n < 10 then [digit_char n] else string_of_nat (n div 10) @ [digit_char (n mod 10)])"

declare string_of_nat.simps [simp del]

definition string_of_int :: "int \<Rightarrow> string" where
  "string_of_int i = (if i < 0 then CHR ''-'' # string_of_nat (nat (- i)) else string_of_nat (nat i))"

text \<open>\<^verbatim>\<open>Array.prototype.join\<close> on strings.\<close>

fun join :: "string \<Rightarrow> string list \<Rightarrow> string" where
  "join sep [] = []"
| "join sep [x] = x"
| "join sep (x # y # ys) = x @ sep @ join sep (y # ys)"

text \<open>
  \<^verbatim>\<open>String(v)\<close>: the conversion behind string concatenation, \<^verbatim>\<open>new Error(v)\<close>,
  \<^verbatim>\<open>encodeURIComponent(v)\<close> and the template engine. An array joins its elements with
  commas, \<^verbatim>\<open>null\<close> and \<^verbatim>\<open>undefined\<close> elements giving the empty string.
\<close>

fun js_to_string :: "jsval \<Rightarrow> string" where
  "js_to_string JUndefined = ''undefined''"
| "js_to_string JNull = ''null''"
| "js_to_string (JBool b) = (if b then ''true'' else ''false'')"
| "js_to_string (JNum n) = string_of_int n"
| "js_to_string (JStr s) = s"
| "js_to_string (JArr xs) =
     join '','' (map (\<lambda>x. if x = JUndefined \<or> x = JNull then [] else js_to_string x) xs)"
| "js_to_string (JObj kvs) = ''[object Object]''"

subsection \<open>Property reads\<close>

definition is_digit :: "char \<Rightarrow> bool" where
  "is_digit c = (c \<in> set ''0123456789'')"

definition digit_val :: "char \<Rightarrow> nat" where
  "digit_val c = of_char c - 48"

definition nat_of_digits :: "string \<Rightarrow> nat" where
  "nat_of_digits s = foldl (\<lambda>n c. 10 * n + digit_val c) 0 s"

text \<open>An array index is written canonically: digits with no leading zero.\<close>

definition parse_index :: "string \<Rightarrow> nat option" where
  "parse_index k =
     (if k \<noteq> [] \<and> list_all is_digit k \<and> (length k = 1 \<or> hd k \<noteq> CHR ''0'')
      then Some (nat_of_digits k) else None)"

text \<open>
  \<^verbatim>\<open>v[k]\<close> for a value \<open>v\<close> other than \<^verbatim>\<open>undefined\<close> and \<^verbatim>\<open>null\<close> (on those the read
  throws a TypeError, which the callers below make a branch of their own). Arrays and
  strings have their indices and \<^verbatim>\<open>length\<close>.
\<close>

fun js_get :: "jsval \<Rightarrow> string \<Rightarrow> jsval" where
  "js_get (JObj kvs) k = (case map_of kvs k of Some v \<Rightarrow> v | None \<Rightarrow> JUndefined)"
| "js_get (JArr xs) k =
     (if k = ''length'' then JNum (int (length xs))
      else case parse_index k of
             Some i \<Rightarrow> if i < length xs then xs ! i else JUndefined
           | None \<Rightarrow> JUndefined)"
| "js_get (JStr s) k =
     (if k = ''length'' then JNum (int (length s))
      else case parse_index k of
             Some i \<Rightarrow> if i < length s then JStr [s ! i] else JUndefined
           | None \<Rightarrow> JUndefined)"
| "js_get v k = JUndefined"

text \<open>
  \<^verbatim>\<open>v > 0\<close>. The source applies it to a \<^verbatim>\<open>length\<close> property, which is a number for an
  array and a string. Numbers, booleans, \<^verbatim>\<open>null\<close> (0) and \<^verbatim>\<open>undefined\<close> (NaN) compare as in
  JavaScript, an array compares as the string it converts to, and an object is NaN. A
  string compares by the decimal integer it spells; strings that spell a number in
  another notation (a fraction, an exponent, a radix prefix, surrounding blanks) are
  taken as NaN.
\<close>

definition str_to_int :: "string \<Rightarrow> int option" where
  "str_to_int s =
     (case s of
        [] \<Rightarrow> Some 0
      | c # cs \<Rightarrow>
          if c = CHR ''-'' \<and> cs \<noteq> [] \<and> list_all is_digit cs then Some (- int (nat_of_digits cs))
          else if list_all is_digit s then Some (int (nat_of_digits s))
          else None)"

fun js_gt0 :: "jsval \<Rightarrow> bool" where
  "js_gt0 (JNum n) = (0 < n)"
| "js_gt0 (JBool b) = b"
| "js_gt0 (JStr s) = (case str_to_int s of Some n \<Rightarrow> 0 < n | None \<Rightarrow> False)"
| "js_gt0 (JArr xs) =
     (case str_to_int (js_to_string (JArr xs)) of Some n \<Rightarrow> 0 < n | None \<Rightarrow> False)"
| "js_gt0 v = False"


subsection \<open>Inherited members\<close>

text \<open>
  Every object inherits the members of \<^verbatim>\<open>Object.prototype\<close>. A read \<^verbatim>\<open>o[k]\<close> and the test
  \<^verbatim>\<open>k in o\<close> see them, so with a name that is computed at run time the result of a read
  is an own property of the object, an inherited member or nothing. (\<open>js_get\<close> above
  serves the reads under the fixed names of the source, none of which names a member.)
  What arrays, strings, numbers and booleans inherit from their own prototypes is not
  modelled: of an array and a string the indices and the length are seen.
\<close>

definition object_prototype :: "string list" where
  "object_prototype =
     [''constructor'', ''__defineGetter__'', ''__defineSetter__'', ''hasOwnProperty'',
      ''__lookupGetter__'', ''__lookupSetter__'', ''isPrototypeOf'', ''propertyIsEnumerable'',
      ''toString'', ''valueOf'', ''__proto__'', ''toLocaleString'']"

datatype member = Own jsval | Inherited string | Absent

fun js_member :: "jsval \<Rightarrow> string \<Rightarrow> member" where
  "js_member (JObj kvs) k =
     (case map_of kvs k of
        Some v \<Rightarrow> Own v
      | None \<Rightarrow> if k \<in> set object_prototype then Inherited k else Absent)"
| "js_member (JArr xs) k =
     (if k = ''length'' \<or> (case parse_index k of Some i \<Rightarrow> i < length xs | None \<Rightarrow> False)
      then Own (js_get (JArr xs) k) else Absent)"
| "js_member (JStr s) k =
     (if k = ''length'' \<or> (case parse_index k of Some i \<Rightarrow> i < length s | None \<Rightarrow> False)
      then Own (js_get (JStr s) k) else Absent)"
| "js_member v k = Absent"

text \<open>
  \<^verbatim>\<open>k in v\<close>: a TypeError (\<open>None\<close>) unless \<open>v\<close> is an object or an array.
\<close>

fun js_in :: "string \<Rightarrow> jsval \<Rightarrow> bool option" where
  "js_in k (JObj kvs) = Some (js_member (JObj kvs) k \<noteq> Absent)"
| "js_in k (JArr xs) = Some (js_member (JArr xs) k \<noteq> Absent)"
| "js_in k v = None"

text \<open>
  \<^verbatim>\<open>String(v)\<close> throws a TypeError on an object that has an own property \<^verbatim>\<open>toString\<close>:
  the data hold no function, so that property cannot be called, and the inherited
  \<^verbatim>\<open>valueOf\<close> returns the object. An array converts its elements. Where \<^verbatim>\<open>String(v)\<close>
  does not throw, \<open>js_to_string\<close> is its result.
\<close>

fun string_throws :: "jsval \<Rightarrow> bool" where
  "string_throws (JObj kvs) = (''toString'' \<in> set (map fst kvs))"
| "string_throws (JArr xs) = list_ex string_throws xs"
| "string_throws v = False"

text \<open>
  \<^verbatim>\<open>String(o[k])\<close> for an inherited member \<open>k\<close>: the members are native functions, which
  Node prints as below; \<^verbatim>\<open>constructor\<close> is the function \<^verbatim>\<open>Object\<close>, and \<^verbatim>\<open>__proto__\<close> is the
  prototype object itself.
\<close>

definition member_source :: "string \<Rightarrow> string" where
  "member_source k =
     (if k = ''__proto__'' then ''[object Object]''
      else ''function '' @ (if k = ''constructor'' then ''Object'' else k) @ ''() { [native code] }'')"

text \<open>\<^verbatim>\<open>String(v[k])\<close> from the result of the read; \<open>None\<close> is the TypeError.\<close>

definition member_string :: "member \<Rightarrow> string option" where
  "member_string m =
     (case m of
        Own v \<Rightarrow> if string_throws v then None else Some (js_to_string v)
      | Inherited k \<Rightarrow> Some (member_source k)
      | Absent \<Rightarrow> Some ''undefined'')"

text \<open>
  \<^verbatim>\<open>Object.keys(v)\<close>: a TypeError (\<open>None\<close>) on \<^verbatim>\<open>undefined\<close> and \<^verbatim>\<open>null\<close>; the indices of
  an array or a string; nothing for a number or a boolean.
\<close>

fun object_keys :: "jsval \<Rightarrow> string list option" where
  "object_keys JUndefined = None"
| "object_keys JNull = None"
| "object_keys (JObj kvs) = Some (map fst kvs)"
| "object_keys (JArr xs) = Some (map string_of_nat [0..<length xs])"
| "object_keys (JStr s) = Some (map string_of_nat [0..<length s])"
| "object_keys v = Some []"

subsection \<open>Property writes\<close>

text \<open>\<^verbatim>\<open>o[k] = v\<close> on the property list of an object: in place, or a new last property.\<close>

fun set_prop :: "(string \<times> jsval) list \<Rightarrow> string \<Rightarrow> jsval \<Rightarrow> (string \<times> jsval) list" where
  "set_prop [] k v = [(k, v)]"
| "set_prop ((k', v') # ps) k v = (if k' = k then (k, v) # ps else (k', v') # set_prop ps k v)"

text \<open>
  \<^verbatim>\<open>o[k] = v\<close> on a value. The file is in strict mode, so the write throws a TypeError
  (\<open>None\<close>) on a primitive, as it does on \<^verbatim>\<open>undefined\<close> and \<^verbatim>\<open>null\<close>. The program writes
  named properties only; an array given where an object is expected is outside the data
  of this model and is treated like a primitive.
\<close>

fun js_set :: "jsval \<Rightarrow> string \<Rightarrow> jsval \<Rightarrow> jsval option" where
  "js_set (JObj kvs) k v = Some (JObj (set_prop kvs k v))"
| "js_set w k v = None"

text \<open>
  \<^verbatim>\<open>Object.assign(target, source)\<close> for one source: \<^verbatim>\<open>undefined\<close> and \<^verbatim>\<open>null\<close> sources
  are skipped, the own properties of any other source are copied in order.
\<close>

definition object_assign :: "(string \<times> jsval) list \<Rightarrow> jsval \<Rightarrow> (string \<times> jsval) list" where
  "object_assign target source =
     (case object_keys source of
        None \<Rightarrow> target
      | Some keys \<Rightarrow> foldl (\<lambda>acc k. set_prop acc k (js_get source k)) target keys)"

subsection \<open>Percent encoding and pattern replacement\<close>

definition uri_unreserved :: "char \<Rightarrow> bool" where
  "uri_unreserved c =
     (c \<in> set (''ABCDEFGHIJKLMNOPQRSTUVWXYZabcdefghijklmnopqrstuvwxyz0123456789-_.!~*()'' @ [CHR 0x27]))"

definition hex_char :: "nat \<Rightarrow> char" where
  "hex_char d = ''0123456789ABCDEF'' ! (d mod 16)"

definition percent_encode :: "char \<Rightarrow> string" where
  "percent_encode c = [CHR ''%'', hex_char (of_char c div 16), hex_char (of_char c mod 16)]"

text \<open>\<^verbatim>\<open>encodeURIComponent\<close> on the bytes of a string.\<close>

definition encodeURIComponent :: "string \<Rightarrow> string" where
  "encodeURIComponent s = concat (map (\<lambda>c. if uri_unreserved c then [c] else percent_encode c) s)"

text \<open>\<^verbatim>\<open>path.match(/sys\/health/) !== null\<close>: the pattern occurs somewhere in the path.\<close>

primrec js_includes :: "string \<Rightarrow> string \<Rightarrow> bool" where
  "js_includes pat [] = (pat = [])"
| "js_includes pat (c # cs) = (prefix pat (c # cs) \<or> js_includes pat cs)"

definition match_sys_health :: "string \<Rightarrow> bool" where
  "match_sys_health path = js_includes ''sys/health'' path"

text \<open>
  \<^verbatim>\<open>uri.replace(/&#x2F;/g, '/')\<close>: every occurrence, scanning from the left, becomes a
  slash.
\<close>

function replace_slash :: "string \<Rightarrow> string" where
  "replace_slash [] = []"
| "replace_slash (c # cs) =
     (if prefix ''&#x2F;'' (c # cs) then CHR ''/'' # replace_slash (drop 5 cs)
      else c # replace_slash cs)"
  by pat_completeness auto
termination
  by (relation "measure length") auto

section \<open>Errors, deferred results and effects\<close>

text \<open>
  \<open>tv4_error\<close> is the validator's \<^verbatim>\<open>tv4.error\<close> with the two fields the source reads.
  A \<open>js_error\<close> is what a deferred rejects with or a call throws: \<^verbatim>\<open>new Error(message)\<close>,
  a TypeError of the language, the validator's error object, a failure of the transport,
  or an error of the template engine.
\<close>

datatype tv4_error = Tv4Error (tv4_message: string) (tv4_dataPath: string)

datatype js_error =
    Error string
  | TypeError
  | ValidationError tv4_error
  | RequestError string
  | TemplateError string

text \<open>
  A call returns a deferred that resolves or rejects, or it throws before it returns
  one.
\<close>

datatype 'a outcome = Resolves 'a | Rejects js_error | Throws js_error

text \<open>
  The effects of a call that the claims speak about: a run of the validator on a value
  and a schema, and a request handed to the transport.
\<close>

datatype event = Validated jsval jsval | Sent jsval

type_synonym 'a io = "event list \<times> 'a outcome"

text \<open>
  \<^verbatim>\<open>p.then(f)\<close> for a function \<open>f\<close>: \<open>f\<close> runs when \<open>p\<close> resolves, and what it throws is a
  rejection of the result.
\<close>

definition then_io :: "'a io \<Rightarrow> ('a \<Rightarrow> 'b io) \<Rightarrow> 'b io" where
  "then_io p f =
     (case snd p of
        Resolves x \<Rightarrow>
          (case snd (f x) of
             Throws e \<Rightarrow> (fst p @ fst (f x), Rejects e)
           | r \<Rightarrow> (fst p @ fst (f x), r))
      | Rejects e \<Rightarrow> (fst p, Rejects e)
      | Throws e \<Rightarrow> (fst p, Throws e))"

text \<open>
  \<^verbatim>\<open>p.then(q)\<close> for a \<open>q\<close> that is not a function (here: another deferred). The argument
  is evaluated, so its effects happen, and it is ignored: the result settles as \<open>p\<close>
  does.
\<close>

definition then_ignored :: "'a io \<Rightarrow> 'b io \<Rightarrow> 'a io" where
  "then_ignored p q = (fst p @ fst q, snd p)"

text \<open>\<^verbatim>\<open>new Error(message)\<close>: the message is \<^verbatim>\<open>String(message)\<close>, empty for \<^verbatim>\<open>undefined\<close>.\<close>

definition new_Error :: "jsval \<Rightarrow> js_error" where
  "new_Error message = Error (if message = JUndefined then [] else js_to_string message)"


section \<open>The collaborators: validator, template engine, transport\<close>

text \<open>
  The module loads \<^verbatim>\<open>tv4\<close>, \<^verbatim>\<open>mustache\<close> and \<^verbatim>\<open>request-promise\<close> and lets the configuration
  replace each of them, so the client is modelled over any three such functions.
  \<open>tv4 cfg data schema\<close> is \<open>None\<close> when \<^verbatim>\<open>tv4.validate(data, schema)\<close> is true and the
  \<^verbatim>\<open>tv4.error\<close> it leaves otherwise. \<open>mustache cfg template view\<close> is the rendered string or
  the error thrown. \<open>request_promise cfg options\<close> is the response the transport
  resolves with (\<open>None\<close>: a resolution with no response object) or the error it rejects
  with. A response carries the three fields the client reads.
\<close>

record response =
  statusCode :: int
  body :: jsval
  request_path :: string

record config =
  tv4 :: "jsval \<Rightarrow> jsval \<Rightarrow> tv4_error option"
  mustache :: "string \<Rightarrow> jsval \<Rightarrow> js_error + string"
  request_promise :: "jsval \<Rightarrow> js_error + response option"
  requestOptions :: jsval

record client =
  endpoint :: string
  apiVersion :: string
  token :: jsval

subsection \<open>A model of tv4 for \<^verbatim>\<open>type\<close>, \<^verbatim>\<open>required\<close> and \<^verbatim>\<open>properties\<close>\<close>

text \<open>
  The JSON-schema validator is a library outside the repository. These definitions
  model it for the keywords that the client's own \<^verbatim>\<open>requestSchema\<close> uses: the type
  check, the required properties of an object, and the schemas of its properties, in
  the order in which tv4 runs them. Other keywords are not modelled.
\<close>

definition json_type :: "jsval \<Rightarrow> string" where
  "json_type v =
     (case v of
        JUndefined \<Rightarrow> ''undefined''
      | JNull \<Rightarrow> ''null''
      | JBool b \<Rightarrow> ''boolean''
      | JNum n \<Rightarrow> ''number''
      | JStr s \<Rightarrow> ''string''
      | JArr xs \<Rightarrow> ''array''
      | JObj kvs \<Rightarrow> ''object'')"

definition validateType :: "jsval \<Rightarrow> jsval \<Rightarrow> string \<Rightarrow> tv4_error option" where
  "validateType data schema dataPath =
     (let t = js_get schema ''type'' in
      if t = JUndefined then None
      else
        let allowedTypes = (case t of JArr ts \<Rightarrow> ts | _ \<Rightarrow> [t]) in
        if list_ex (\<lambda>ty. ty = JStr (json_type data) \<or>
                          (ty = JStr ''integer'' \<and> json_type data = ''number'')) allowedTypes
        then None
        else Some (Tv4Error
          (''Invalid type: '' @ json_type data @ '' (expected '' @
             join ''/'' (map js_to_string allowedTypes) @ '')'')
          dataPath))"

fun validateObjectRequiredProperties :: "jsval \<Rightarrow> jsval list \<Rightarrow> string \<Rightarrow> tv4_error option" where
  "validateObjectRequiredProperties data [] dataPath = None"
| "validateObjectRequiredProperties data (key # keys) dataPath =
     (if js_get data (js_to_string key) = JUndefined
      then Some (Tv4Error (''Missing required property: '' @ js_to_string key) dataPath)
      else validateObjectRequiredProperties data keys dataPath)"

definition pointer_escape :: "string \<Rightarrow> string" where
  "pointer_escape key =
     concat (map (\<lambda>c. if c = CHR ''~'' then ''~0'' else if c = CHR ''/'' then ''~1'' else [c]) key)"

lemma size_map_of:
  "map_of kvs k = Some v \<Longrightarrow> size v < Suc (size_list (size_prod (\<lambda>_. 0) size) kvs)"
  by (induction kvs) (auto split: if_splits)

function tv4_validateAll :: "jsval \<Rightarrow> jsval \<Rightarrow> string \<Rightarrow> tv4_error option"
  and validateObjectProperties ::
    "string list \<Rightarrow> jsval \<Rightarrow> (string \<times> jsval) list \<Rightarrow> string \<Rightarrow> tv4_error option"
where
  "tv4_validateAll data schema dataPath =
     (case schema of
        JObj skvs \<Rightarrow>
          (case validateType data schema dataPath of
             Some e \<Rightarrow> Some e
           | None \<Rightarrow>
               (case data of
                  JObj dkvs \<Rightarrow>
                    (case validateObjectRequiredProperties data
                            (case js_get schema ''required'' of JArr ks \<Rightarrow> ks | _ \<Rightarrow> []) dataPath of
                       Some e \<Rightarrow> Some e
                     | None \<Rightarrow>
                         (case map_of skvs ''properties'' of
                            Some (JObj pkvs) \<Rightarrow>
                              validateObjectProperties (map fst dkvs) data pkvs dataPath
                          | _ \<Rightarrow> None))
                | _ \<Rightarrow> None))
      | _ \<Rightarrow> None)"
| "validateObjectProperties [] data pkvs dataPath = None"
| "validateObjectProperties (key # keys) data pkvs dataPath =
     (case map_of pkvs key of
        Some sub \<Rightarrow>
          (case tv4_validateAll (js_get data key) sub (dataPath @ ''/'' @ pointer_escape key) of
             Some e \<Rightarrow> Some e
           | None \<Rightarrow> validateObjectProperties keys data pkvs dataPath)
      | None \<Rightarrow> validateObjectProperties keys data pkvs dataPath)"
  by pat_completeness auto
termination
  by (relation "measures
        [\<lambda>x. case x of Inl (d, s, p) \<Rightarrow> size s | Inr (ks, d, pk, p) \<Rightarrow> size (JObj pk),
         \<lambda>x. case x of Inl (d, s, p) \<Rightarrow> 0 | Inr (ks, d, pk, p) \<Rightarrow> length ks]")
     (auto dest: size_map_of)

definition tv4_validate :: "jsval \<Rightarrow> jsval \<Rightarrow> tv4_error option" where
  "tv4_validate data schema = tv4_validateAll data schema []"


declare tv4_validateAll.simps [simp del]

subsection \<open>A model of mustache for escaped variables\<close>

text \<open>
  The template engine is a library outside the repository. These definitions model it
  for templates made of text and escaped variable tags \<^verbatim>\<open>{{name}}\<close>: the template is
  parsed into tokens first (an unclosed tag is an error), then each \<^verbatim>\<open>name\<close> token is
  looked up in the view and rendered HTML-escaped, \<^verbatim>\<open>undefined\<close> and \<^verbatim>\<open>null\<close> giving the
  empty string. The lookup is the read \<^verbatim>\<open>view[name]\<close>, which sees inherited members, and
  a value that is a function is called on the view. Sections, comments, partials,
  unescaped variables, delimiter changes and dotted names are outside the model; the
  parser answers them with a \<open>TemplateError\<close> of its own.
\<close>

datatype token = Text string | Name string

definition is_space :: "char \<Rightarrow> bool" where
  "is_space c = (c \<in> set [CHR '' '', CHR 0x09, CHR 0x0A, CHR 0x0B, CHR 0x0C, CHR 0x0D])"

definition trim :: "string \<Rightarrow> string" where
  "trim s = rev (dropWhile is_space (rev (dropWhile is_space s)))"

definition plain_name :: "string \<Rightarrow> bool" where
  "plain_name n = (n \<noteq> [] \<and> hd n \<notin> set ''#^/>{&=!'' \<and> CHR ''.'' \<notin> set n)"

definition cons_token :: "token \<Rightarrow> js_error + token list \<Rightarrow> js_error + token list" where
  "cons_token t r = (case r of Inl e \<Rightarrow> Inl e | Inr ts \<Rightarrow> Inr (t # ts))"

fun parse_text :: "string \<Rightarrow> js_error + token list"
  and parse_tag :: "string \<Rightarrow> string \<Rightarrow> js_error + token list"
where
  "parse_text [] = Inr []"
| "parse_text [c] = Inr [Text [c]]"
| "parse_text (c # d # ds) =
     (if c = CHR ''{'' \<and> d = CHR ''{'' then parse_tag [] ds
      else cons_token (Text [c]) (parse_text (d # ds)))"
| "parse_tag acc [] = Inl (TemplateError ''Unclosed tag'')"
| "parse_tag acc [c] = Inl (TemplateError ''Unclosed tag'')"
| "parse_tag acc (c # d # ds) =
     (if c = CHR ''}'' \<and> d = CHR ''}''
      then if plain_name (trim (rev acc))
           then cons_token (Name (trim (rev acc))) (parse_text ds)
           else Inl (TemplateError ''tag outside the model'')
      else parse_tag (c # acc) (d # ds))"

definition escape_char :: "char \<Rightarrow> string" where
  "escape_char c =
     (if c = CHR ''&'' then ''&amp;''
      else if c = CHR ''<'' then ''&lt;''
      else if c = CHR ''>'' then ''&gt;''
      else if c = CHR 0x22 then ''&quot;''
      else if c = CHR 0x27 then ''&#39;''
      else if c = CHR ''/'' then ''&#x2F;''
      else if c = CHR 0x60 then ''&#x60;''
      else if c = CHR ''='' then ''&#x3D;''
      else [c])"

definition escapeHtml :: "string \<Rightarrow> string" where
  "escapeHtml s = concat (map escape_char s)"

text \<open>
  What the lookup makes of a member inherited by an object with the own properties
  \<open>kvs\<close>: a function member is called on the object with no argument. \<^verbatim>\<open>Object()\<close> and
  \<^verbatim>\<open>__proto__\<close> give an object without properties of its own, \<^verbatim>\<open>valueOf\<close> the object,
  \<^verbatim>\<open>hasOwnProperty\<close> and \<^verbatim>\<open>propertyIsEnumerable\<close> test the key \<^verbatim>\<open>undefined\<close>,
  \<^verbatim>\<open>toLocaleString\<close> calls \<^verbatim>\<open>toString\<close>, the lookups of accessors find none, and the
  definitions of accessors throw for want of a function.
\<close>

definition call_member :: "string \<Rightarrow> (string \<times> jsval) list \<Rightarrow> js_error + jsval" where
  "call_member m kvs =
     (if m = ''constructor'' \<or> m = ''__proto__'' then Inr (JObj [])
      else if m = ''toString'' then Inr (JStr ''[object Object]'')
      else if m = ''toLocaleString''
        then if ''toString'' \<in> set (map fst kvs) then Inl TypeError
             else Inr (JStr ''[object Object]'')
      else if m = ''valueOf'' then Inr (JObj kvs)
      else if m = ''hasOwnProperty'' \<or> m = ''propertyIsEnumerable''
        then Inr (JBool (''undefined'' \<in> set (map fst kvs)))
      else if m = ''isPrototypeOf'' then Inr (JBool False)
      else if m = ''__lookupGetter__'' \<or> m = ''__lookupSetter__'' then Inr JUndefined
      else Inl TypeError)"

definition context_lookup :: "jsval \<Rightarrow> string \<Rightarrow> js_error + jsval" where
  "context_lookup view n =
     (if view = JUndefined \<or> view = JNull then Inl TypeError
      else case js_member view n of
             Own v \<Rightarrow> Inr v
           | Inherited m \<Rightarrow> (case view of JObj kvs \<Rightarrow> call_member m kvs | _ \<Rightarrow> Inr JUndefined)
           | Absent \<Rightarrow> Inr JUndefined)"

definition render_name :: "jsval \<Rightarrow> string \<Rightarrow> js_error + string" where
  "render_name view n =
     (case context_lookup view n of
        Inl e \<Rightarrow> Inl e
      | Inr v \<Rightarrow>
          if v = JUndefined \<or> v = JNull then Inr []
          else if string_throws v then Inl TypeError
          else Inr (escapeHtml (js_to_string v)))"

fun render_tokens :: "jsval \<Rightarrow> token list \<Rightarrow> js_error + string" where
  "render_tokens view [] = Inr []"
| "render_tokens view (Text s # ts) =
     (case render_tokens view ts of Inl e \<Rightarrow> Inl e | Inr out \<Rightarrow> Inr (s @ out))"
| "render_tokens view (Name n # ts) =
     (case render_name view n of
        Inl e \<Rightarrow> Inl e
      | Inr shown \<Rightarrow>
          (case render_tokens view ts of Inl e \<Rightarrow> Inl e | Inr out \<Rightarrow> Inr (shown @ out)))"

definition mustache_render :: "string \<Rightarrow> jsval \<Rightarrow> js_error + string" where
  "mustache_render template view =
     (case parse_text template of Inl e \<Rightarrow> Inl e | Inr ts \<Rightarrow> render_tokens view ts)"

section \<open>The client\<close>

subsection \<open>\<^verbatim>\<open>handleVaultResponse\<close>\<close>

definition handleVaultResponse :: "response option \<Rightarrow> jsval outcome" where
  "handleVaultResponse response =
     (case response of
        None \<Rightarrow> Rejects (Error ''No response passed'')
      | Some r \<Rightarrow>
          if statusCode r \<noteq> 200 \<and> statusCode r \<noteq> 204 then
            if match_sys_health (request_path r) then Resolves (body r)
            else
              let message =
                (if js_truthy (body r) \<and> js_truthy (js_get (body r) ''errors'') \<and>
                    js_gt0 (js_get (js_get (body r) ''errors'') ''length'')
                 then js_get (js_get (body r) ''errors'') ''0''
                 else JStr (''Status '' @ string_of_int (statusCode r)))
              in Rejects (new_Error message)
          else Resolves (body r))"

subsection \<open>\<^verbatim>\<open>client.request\<close>\<close>

definition requestSchema :: jsval where
  "requestSchema =
     JObj [(''type'', JStr ''object''),
           (''properties'',
              JObj [(''path'', JObj [(''type'', JStr ''string'')]),
                    (''method'', JObj [(''type'', JStr ''string'')])]),
           (''required'', JArr [JStr ''path'', JStr ''method''])]"

text \<open>
  Lines 73 to 77: the URI is the endpoint, a slash, the API version and the path of the
  options, rendered as a template against \<^verbatim>\<open>options.json\<close>, with every \<^verbatim>\<open>&#x2F;\<close> turned
  back into a slash.
\<close>

definition build_uri :: "config \<Rightarrow> client \<Rightarrow> jsval \<Rightarrow> js_error + string" where
  "build_uri cfg cl options =
     (if string_throws (js_get options ''path'') then Inl TypeError
      else
        case mustache cfg
               (endpoint cl @ ''/'' @ apiVersion cl @ js_to_string (js_get options ''path''))
               (js_get options ''json'') of
          Inl e \<Rightarrow> Inl e
        | Inr uri \<Rightarrow> Inr (replace_slash uri))"

text \<open>
  Lines 78 to 82: the headers default to an empty object, the token is written into
  them under the condition of line 79, and the URI is stored. The headers object is the
  one the options hold, so the options see the token.

  The write of line 80 changes an object that the caller handed in. In a generated
  operation (below) that object can be \<^verbatim>\<open>args.requestOptions.headers\<close>, which
  \<^verbatim>\<open>Object.assign\<close> copied into the options by reference, and \<^verbatim>\<open>args\<close> is \<^verbatim>\<open>options.json\<close>:
  the token then appears inside the JSON body. Values here are trees, so the sharing
  is a parameter: \<open>shared\<close> says that the headers object of the options is also the
  object at \<^verbatim>\<open>options.json.requestOptions.headers\<close>, and \<open>share_headers\<close> writes it there.
\<close>

definition share_headers :: "jsval \<Rightarrow> jsval \<Rightarrow> jsval" where
  "share_headers options headers =
     (case options of
        JObj ps \<Rightarrow>
          (case map_of ps ''json'' of
             Some (JObj args) \<Rightarrow>
               (case map_of args ''requestOptions'' of
                  Some (JObj ro) \<Rightarrow>
                    JObj (set_prop ps ''json''
                      (JObj (set_prop args ''requestOptions''
                        (JObj (set_prop ro ''headers'' headers)))))
                | _ \<Rightarrow> options)
           | _ \<Rightarrow> options)
      | _ \<Rightarrow> options)"

definition set_headers_uri :: "bool \<Rightarrow> client \<Rightarrow> jsval \<Rightarrow> string \<Rightarrow> jsval option" where
  "set_headers_uri shared cl options uri =
     (let h = js_get options ''headers'';
          headers = (if js_truthy h then h else JObj [])
      in case js_set options ''headers'' headers of
           None \<Rightarrow> None
         | Some options1 \<Rightarrow>
             (case (if strict_ne (token cl) JUndefined \<or> strict_ne (token cl) JNull \<or>
                       strict_ne (token cl) (JStr [])
                    then js_set headers ''X-Vault-Token'' (token cl)
                    else Some headers) of
                None \<Rightarrow> None
              | Some headers' \<Rightarrow>
                  (case js_set options1 ''headers'' headers' of
                     None \<Rightarrow> None
                   | Some options2 \<Rightarrow>
                       (case js_set options2 ''uri'' (JStr uri) of
                          None \<Rightarrow> None
                        | Some options3 \<Rightarrow>
                            Some (if shared then share_headers options3 headers'
                                  else options3)))))"

definition client_request_on :: "bool \<Rightarrow> config \<Rightarrow> client \<Rightarrow> jsval \<Rightarrow> jsval io" where
  "client_request_on shared cfg cl arg =
     (let options = (if strict_ne arg JUndefined then arg else JObj []);
          validated = [Validated options requestSchema]
      in case tv4 cfg options requestSchema of
           Some err \<Rightarrow> (validated, Rejects (ValidationError err))
         | None \<Rightarrow>
             if options = JNull then (validated, Throws TypeError)
             else
               (case build_uri cfg cl options of
                  Inl e \<Rightarrow> (validated, Throws e)
                | Inr uri \<Rightarrow>
                    (case set_headers_uri shared cl options uri of
                       None \<Rightarrow> (validated, Throws TypeError)
                     | Some options' \<Rightarrow>
                         (validated @ [Sent options'],
                          case request_promise cfg options' of
                            Inl e \<Rightarrow> Rejects e
                          | Inr response \<Rightarrow> handleVaultResponse response))))"

text \<open>
  \<^verbatim>\<open>client.request\<close> as the caller and the generic verbs call it: on options that share
  nothing with their own \<^verbatim>\<open>json\<close>.
\<close>

definition client_request :: "config \<Rightarrow> client \<Rightarrow> jsval \<Rightarrow> jsval io" where
  "client_request cfg cl arg = client_request_on False cfg cl arg"

subsection \<open>The generic verbs\<close>

definition client_help :: "config \<Rightarrow> client \<Rightarrow> string \<Rightarrow> jsval \<Rightarrow> jsval io" where
  "client_help cfg cl path ro =
     (let options = object_assign (object_assign [] (requestOptions cfg)) ro;
          options = set_prop options ''path'' (JStr (''/'' @ path @ ''?help=1''));
          options = set_prop options ''method'' (JStr ''GET'')
      in client_request cfg cl (JObj options))"

definition client_write :: "config \<Rightarrow> client \<Rightarrow> string \<Rightarrow> jsval \<Rightarrow> jsval \<Rightarrow> jsval io" where
  "client_write cfg cl path data ro =
     (let options = object_assign (object_assign [] (requestOptions cfg)) ro;
          options = set_prop options ''path'' (JStr (''/'' @ path));
          options = set_prop options ''json'' data;
          options = set_prop options ''method'' (JStr ''PUT'')
      in client_request cfg cl (JObj options))"

definition client_read :: "config \<Rightarrow> client \<Rightarrow> string \<Rightarrow> jsval \<Rightarrow> jsval io" where
  "client_read cfg cl path ro =
     (let options = object_assign (object_assign [] (requestOptions cfg)) ro;
          options = set_prop options ''path'' (JStr (''/'' @ path));
          options = set_prop options ''method'' (JStr ''GET'')
      in client_request cfg cl (JObj options))"

definition client_list :: "config \<Rightarrow> client \<Rightarrow> string \<Rightarrow> jsval \<Rightarrow> jsval io" where
  "client_list cfg cl path ro =
     (let options = object_assign (object_assign [] (requestOptions cfg)) ro;
          options = set_prop options ''path'' (JStr (''/'' @ path));
          options = set_prop options ''method'' (JStr ''LIST'')
      in client_request cfg cl (JObj options))"

definition client_delete :: "config \<Rightarrow> client \<Rightarrow> string \<Rightarrow> jsval \<Rightarrow> jsval io" where
  "client_delete cfg cl path ro =
     (let options = object_assign (object_assign [] (requestOptions cfg)) ro;
          options = set_prop options ''path'' (JStr (''/'' @ path));
          options = set_prop options ''method'' (JStr ''DELETE'')
      in client_request cfg cl (JObj options))"


subsection \<open>The generated operations\<close>

text \<open>
  An entry of the command table: the HTTP method, the path template and, when the entry
  has one, the schema object with its request and query schemas (each \<^verbatim>\<open>undefined\<close>
  when absent). The table itself is configuration data.
\<close>

record conf_schema =
  req :: jsval
  query :: jsval

record command =
  cmd_method :: string
  cmd_path :: string
  cmd_schema :: "conf_schema option"

definition validate :: "config \<Rightarrow> jsval \<Rightarrow> jsval \<Rightarrow> jsval io" where
  "validate cfg json schema =
     (if strict_eq schema JUndefined then ([], Resolves JUndefined)
      else case tv4 cfg json schema of
             Some err \<Rightarrow> ([Validated json schema], Rejects (ValidationError err))
           | None \<Rightarrow> ([Validated json schema], Resolves JUndefined))"

text \<open>
  The loop of \<^verbatim>\<open>extendOptions\<close> over the declared keys: \<^verbatim>\<open>params.push\<close> for every key
  that is \<^verbatim>\<open>in\<close> the payload. The \<^verbatim>\<open>in\<close> test throws on a payload that is not an object,
  and \<^verbatim>\<open>encodeURIComponent\<close> throws where the conversion of the value to a string does.
\<close>

fun collect_params :: "jsval \<Rightarrow> string list \<Rightarrow> string list \<Rightarrow> string list option" where
  "collect_params json [] params = Some params"
| "collect_params json (key # keys) params =
     (case js_in key json of
        None \<Rightarrow> None
      | Some present \<Rightarrow>
          if present
          then (case member_string (js_member json key) of
                  None \<Rightarrow> None
                | Some s \<Rightarrow>
                    collect_params json keys (params @ [key @ ''='' @ encodeURIComponent s]))
          else collect_params json keys params)"

definition extendOptions :: "command \<Rightarrow> (string \<times> jsval) list \<Rightarrow> (string \<times> jsval) list outcome" where
  "extendOptions conf options =
     (case cmd_schema conf of
        None \<Rightarrow> Throws TypeError
      | Some sch \<Rightarrow>
          let schema = query sch in
          if \<not> js_truthy schema then Resolves options
          else
            (case object_keys (js_get schema ''properties'') of
               None \<Rightarrow> Throws TypeError
             | Some keys \<Rightarrow>
                 (case collect_params (js_get (JObj options) ''json'') keys [] of
                    None \<Rightarrow> Throws TypeError
                  | Some params \<Rightarrow>
                      if length params > 0
                      then if string_throws (js_get (JObj options) ''path'')
                           then Throws TypeError
                           else Resolves (set_prop options ''path''
                                  (JStr (js_to_string (js_get (JObj options) ''path'') @
                                         ''?'' @ join ''&'' params)))
                      else Resolves options)))"

text \<open>
  Lines 183 to 186: the options of a generated operation. \<^verbatim>\<open>Object.assign\<close> copies the
  properties of \<^verbatim>\<open>args.requestOptions\<close> by reference, so when that object has a
  \<^verbatim>\<open>headers\<close> object, it is the headers object of the options, and it is inside
  \<^verbatim>\<open>options.json\<close>, which is \<^verbatim>\<open>args\<close>.
\<close>

definition generated_options :: "config \<Rightarrow> command \<Rightarrow> jsval \<Rightarrow> (string \<times> jsval) list" where
  "generated_options cfg conf args =
     (let options = object_assign (object_assign [] (requestOptions cfg))
                      (js_get args ''requestOptions'');
          options = set_prop options ''method'' (JStr (cmd_method conf));
          options = set_prop options ''path'' (JStr (cmd_path conf));
          options = set_prop options ''json'' args
      in options)"

definition headers_shared :: "jsval \<Rightarrow> bool" where
  "headers_shared args =
     (case js_get args ''requestOptions'' of
        JObj ro \<Rightarrow> (case map_of ro ''headers'' of Some (JObj hs) \<Rightarrow> True | _ \<Rightarrow> False)
      | _ \<Rightarrow> False)"

text \<open>
  The function that \<^verbatim>\<open>generateFunction(name, conf)\<close> installs on the client, applied to
  its argument. Line 190 hands the second validation to \<^verbatim>\<open>then\<close> as a value, not as a
  function.
\<close>

definition generateFunction :: "config \<Rightarrow> client \<Rightarrow> command \<Rightarrow> jsval \<Rightarrow> jsval io" where
  "generateFunction cfg cl conf arg =
     (let args = (if strict_ne arg JUndefined then arg else JObj []) in
      if args = JNull then ([], Throws TypeError)
      else
        let options = generated_options cfg conf args in
        case cmd_schema conf of
          None \<Rightarrow> client_request_on (headers_shared args) cfg cl (JObj options)
        | Some sch \<Rightarrow>
            then_io
              (then_io
                 (then_ignored (validate cfg args (req sch)) (validate cfg args (query sch)))
                 (\<lambda>_. ([], extendOptions conf options)))
              (\<lambda>extendedOptions.
                 client_request_on (headers_shared args) cfg cl (JObj extendedOptions)))"

subsection \<open>Construction with the default collaborators\<close>

text \<open>
  \<^verbatim>\<open>module.exports(config)\<close> with no replacement for the validator and the template engine
  and no default request options, over a given transport; and the client it returns for
  a given token, with the default endpoint and API version of lines 50 and 51.
\<close>

definition default_config :: "(jsval \<Rightarrow> js_error + response option) \<Rightarrow> config" where
  "default_config transport =
     \<lparr>tv4 = tv4_validate, mustache = mustache_render, request_promise = transport,
      requestOptions = JUndefined\<rparr>"

definition default_client :: "jsval \<Rightarrow> client" where
  "default_client tok = \<lparr>endpoint = ''http://127.0.0.1:8200'', apiVersion = ''v1'', token = tok\<rparr>"

text \<open>A transport that answers every request with status 200 and an empty object.\<close>

definition transport_ok :: "jsval \<Rightarrow> js_error + response option" where
  "transport_ok options =
     Inr (Some \<lparr>statusCode = 200, body = JObj [], request_path = js_to_string (js_get options ''uri'')\<rparr>)"

section \<open>What the specification says, as definitions of its own\<close>

















text \<open>
  The JSON body of a generated operation as amended: the argument, with the token
  written into \<^verbatim>\<open>requestOptions.headers\<close> when that is an object.
\<close>

definition args_when_sent :: "client \<Rightarrow> jsval \<Rightarrow> jsval" where
  "args_when_sent cl args =
     (case args of
        JObj a \<Rightarrow>
          (case map_of a ''requestOptions'' of
             Some (JObj ro) \<Rightarrow>
               (case map_of ro ''headers'' of
                  Some (JObj hs) \<Rightarrow>
                    JObj (set_prop a ''requestOptions''
                      (JObj (set_prop ro ''headers''
                        (JObj (set_prop hs ''X-Vault-Token'' (token cl))))))
                | _ \<Rightarrow> args)
           | _ \<Rightarrow> args)
      | _ \<Rightarrow> args)"

text \<open>
  The argument of a generated operation after line 181: the empty object when the
  operation is called without argument or with \<^verbatim>\<open>undefined\<close>.
\<close>

definition given_args :: "jsval \<Rightarrow> jsval" where
  "given_args arg = (if arg = JUndefined then JObj [] else arg)"

text \<open>
  Headers that lines 78 to 80 can write the token into: an object, or a falsy value,
  which line 78 replaces by an empty object.
\<close>

definition writable_headers :: "jsval \<Rightarrow> bool" where
  "writable_headers h = (case h of JObj hs \<Rightarrow> True | _ \<Rightarrow> \<not> js_truthy h)"


section \<open>The response normalizer\<close>

lemma js_includes_sublist: "js_includes pat s = sublist pat s"
  by (induction s) (auto simp: sublist_Cons_right)

lemma js_includes_iff: "js_includes pat s \<longleftrightarrow> (\<exists>pre post. s = pre @ pat @ post)"
  by (simp add: js_includes_sublist sublist_def)






lemma handle_health:
  "match_sys_health (request_path r) \<Longrightarrow> handleVaultResponse (Some r) = Resolves (body r)"
  by (auto simp: handleVaultResponse_def)





text \<open>
  Claim C4. For a response whose request path matches the health-check pattern, the
  normalizer resolves with the body whatever the status code is; it never rejects.
\<close>

theorem handleVaultResponse_health:
  assumes "match_sys_health (request_path r)"
  shows "handleVaultResponse (Some r) = Resolves (body r)
    \<and> (\<forall>e. handleVaultResponse (Some r) \<noteq> Rejects e)"
  using handle_health [OF assms] by simp

theorem handleVaultResponse_health_witness:
  "match_sys_health ''/v1/sys/health''
   \<and> handleVaultResponse (Some \<lparr>statusCode = 500,
         body = JObj [(''initialized'', JBool True), (''sealed'', JBool True)],
         request_path = ''/v1/sys/health''\<rparr>)
       = Resolves (JObj [(''initialized'', JBool True), (''sealed'', JBool True)])"
  using handleVaultResponse_health [of "\<lparr>statusCode = 500,
      body = JObj [(''initialized'', JBool True), (''sealed'', JBool True)],
      request_path = ''/v1/sys/health''\<rparr>"]
  by (simp add: match_sys_health_def)

text \<open>
  Claim C9. The health-check pattern is not anchored: a path matches exactly when
  \<^verbatim>\<open>sys/health\<close> occurs somewhere in it, and every response whose request path contains
  \<^verbatim>\<open>sys/health\<close> resolves with the body for every status code, a secret path such as
  \<^verbatim>\<open>/v1/secret/sys/health\<close> included.
\<close>

theorem health_match_unanchored:
  "(match_sys_health p \<longleftrightarrow> (\<exists>pre post. p = pre @ ''sys/health'' @ post))
   \<and> (request_path r = pre @ ''sys/health'' @ post \<longrightarrow>
        handleVaultResponse (Some r) = Resolves (body r))"
proof (intro conjI impI)
  show "match_sys_health p \<longleftrightarrow> (\<exists>pre post. p = pre @ ''sys/health'' @ post)"
    unfolding match_sys_health_def by (rule js_includes_iff)
next
  assume "request_path r = pre @ ''sys/health'' @ post"
  then have "match_sys_health (request_path r)"
    unfolding match_sys_health_def js_includes_iff by blast
  then show "handleVaultResponse (Some r) = Resolves (body r)" by (rule handle_health)
qed

theorem health_match_unanchored_witness:
  "''/v1/secret/sys/health'' = ''/v1/secret/'' @ ''sys/health'' @ []
   \<and> handleVaultResponse (Some \<lparr>statusCode = 500,
         body = JObj [(''errors'', JArr [JStr ''internal error''])],
         request_path = ''/v1/secret/sys/health''\<rparr>)
       = Resolves (JObj [(''errors'', JArr [JStr ''internal error''])])"
  using health_match_unanchored [of "''/v1/secret/sys/health''" "\<lparr>statusCode = 500,
      body = JObj [(''errors'', JArr [JStr ''internal error''])],
      request_path = ''/v1/secret/sys/health''\<rparr>" "''/v1/secret/''" "[]"]
  by simp


section \<open>The request executor\<close>

lemma map_of_set_prop: "map_of (set_prop ps k v) = (map_of ps)(k \<mapsto> v)"
  by (induction ps) (auto simp: fun_eq_iff)

lemma js_get_set_prop:
  "js_get (JObj (set_prop ps k v)) k' = (if k' = k then v else js_get (JObj ps) k')"
  by (simp add: map_of_set_prop)

lemma js_set_Some: "js_set w k v = Some w' \<Longrightarrow> \<exists>ps. w = JObj ps \<and> w' = JObj (set_prop ps k v)"
  by (cases w) auto

lemma token_condition_always: "strict_ne t JUndefined \<or> strict_ne t JNull \<or> strict_ne t (JStr [])"
  by (cases t) (auto simp: strict_ne_def strict_eq_def)

lemma share_headers_other: "k \<noteq> ''json'' \<Longrightarrow> js_get (share_headers opts h) k = js_get opts k"
  by (auto simp: share_headers_def map_of_set_prop split: jsval.splits option.splits)

lemma set_headers_uri_Some:
  assumes "set_headers_uri sh cl options uri = Some opts'"
  shows "\<exists>ps hs. options = JObj ps
      \<and> (if js_truthy (js_get options ''headers'') then js_get options ''headers'' else JObj []) = JObj hs
      \<and> opts' =
          (if sh then (\<lambda>opts. share_headers opts (JObj (set_prop hs ''X-Vault-Token'' (token cl))))
           else (\<lambda>opts. opts))
            (JObj (set_prop (set_prop (set_prop ps ''headers'' (JObj hs)) ''headers''
                  (JObj (set_prop hs ''X-Vault-Token'' (token cl)))) ''uri'' (JStr uri)))"
  using assms token_condition_always [of "token cl"]
  by (auto simp: set_headers_uri_def Let_def split: option.splits dest!: js_set_Some)

lemma set_headers_uri_other:
  assumes "set_headers_uri sh cl options uri = Some opts'" "k \<noteq> ''headers''" "k \<noteq> ''uri''"
    and "k \<noteq> ''json'' \<or> \<not> sh"
  shows "js_get opts' k = js_get options k"
  using set_headers_uri_Some [OF assms(1)] assms(2,3,4)
  by (auto simp: map_of_set_prop share_headers_other simp del: js_get.simps)
     (auto simp: map_of_set_prop)



lemma client_request_on_validated:
  "Validated d sc \<in> set (fst (client_request_on sh cfg cl arg)) \<Longrightarrow> sc = requestSchema"
  by (auto simp: client_request_on_def Let_def split: option.splits sum.splits if_splits)

lemma client_request_on_sent:
  assumes "Sent opts' \<in> set (fst (client_request_on sh cfg cl arg))"
  shows "\<exists>uri. tv4 cfg (if strict_ne arg JUndefined then arg else JObj []) requestSchema = None
      \<and> build_uri cfg cl (if strict_ne arg JUndefined then arg else JObj []) = Inr uri
      \<and> set_headers_uri sh cl (if strict_ne arg JUndefined then arg else JObj []) uri = Some opts'"
  using assms
  by (auto simp: client_request_on_def Let_def split: option.splits sum.splits if_splits)

lemma client_request_validated:
  "Validated d sc \<in> set (fst (client_request cfg cl arg)) \<Longrightarrow> sc = requestSchema"
  unfolding client_request_def by (rule client_request_on_validated)

lemma client_request_sent:
  assumes "Sent opts' \<in> set (fst (client_request cfg cl arg))"
  shows "\<exists>uri. tv4 cfg (if strict_ne arg JUndefined then arg else JObj []) requestSchema = None
      \<and> build_uri cfg cl (if strict_ne arg JUndefined then arg else JObj []) = Inr uri
      \<and> set_headers_uri False cl (if strict_ne arg JUndefined then arg else JObj []) uri = Some opts'"
  using assms unfolding client_request_def by (rule client_request_on_sent)

lemma client_request_invalid:
  assumes "tv4 cfg (if strict_ne arg JUndefined then arg else JObj []) requestSchema = Some err"
  shows "client_request cfg cl arg =
     ([Validated (if strict_ne arg JUndefined then arg else JObj []) requestSchema],
      Rejects (ValidationError err))"
  using assms by (simp add: client_request_def client_request_on_def Let_def)

lemma set_headers_uri_writable:
  assumes "writable_headers (js_get (JObj opts) ''headers'')"
  shows "\<exists>sent. set_headers_uri sh cl (JObj opts) uri = Some sent"
proof (cases "js_get (JObj opts) ''headers''")
  case (JObj hs)
  then show ?thesis
    using token_condition_always [of "token cl"]
    by (simp add: set_headers_uri_def Let_def del: js_get.simps)
next
  case JUndefined
  then show ?thesis
    using token_condition_always [of "token cl"]
    by (simp add: set_headers_uri_def Let_def del: js_get.simps)
next
  case JNull
  then show ?thesis
    using token_condition_always [of "token cl"]
    by (simp add: set_headers_uri_def Let_def del: js_get.simps)
next
  case (JBool b)
  with assms show ?thesis
    using token_condition_always [of "token cl"]
    by (simp add: set_headers_uri_def Let_def writable_headers_def del: js_get.simps)
next
  case (JNum n)
  with assms show ?thesis
    using token_condition_always [of "token cl"]
    by (simp add: set_headers_uri_def Let_def writable_headers_def del: js_get.simps)
next
  case (JStr t)
  with assms show ?thesis
    using token_condition_always [of "token cl"]
    by (simp add: set_headers_uri_def Let_def writable_headers_def del: js_get.simps)
next
  case (JArr xs)
  with assms show ?thesis by (simp add: writable_headers_def del: js_get.simps)
qed

lemma client_request_on_sends:
  assumes "tv4 cfg (JObj opts) requestSchema = None"
    and "build_uri cfg cl (JObj opts) = Inr uri"
    and "writable_headers (js_get (JObj opts) ''headers'')"
  shows "\<exists>sent. fst (client_request_on sh cfg cl (JObj opts))
                   = [Validated (JObj opts) requestSchema, Sent sent]
               \<and> set_headers_uri sh cl (JObj opts) uri = Some sent"
proof -
  from set_headers_uri_writable [OF assms(3)] obtain sent
    where "set_headers_uri sh cl (JObj opts) uri = Some sent" by blast
  with assms(1,2) show ?thesis
    by (simp add: client_request_on_def Let_def strict_ne_def strict_eq_def del: js_get.simps)
qed

section \<open>The generic verbs\<close>

lemma sent_keeps:
  assumes "Sent sent \<in> set (fst (client_request cfg cl (JObj opts)))"
    and "k \<noteq> ''headers''" "k \<noteq> ''uri''"
  shows "js_get sent k = js_get (JObj opts) k"
proof -
  from client_request_sent [OF assms(1)] obtain uri
    where "set_headers_uri False cl (JObj opts) uri = Some sent"
    by (auto simp: strict_ne_def strict_eq_def)
  then show ?thesis using assms(2,3) by (rule set_headers_uri_other) simp
qed

lemma read_builds:
  "\<exists>opts. client_read cfg cl path ro = client_request cfg cl (JObj opts)
     \<and> js_get (JObj opts) ''method'' = JStr ''GET''
     \<and> js_get (JObj opts) ''path'' = JStr (''/'' @ path)"
  unfolding client_read_def Let_def
  apply (intro exI conjI)
     apply (rule refl)
    apply (simp_all add: map_of_set_prop)
  done

lemma list_builds:
  "\<exists>opts. client_list cfg cl path ro = client_request cfg cl (JObj opts)
     \<and> js_get (JObj opts) ''method'' = JStr ''LIST''
     \<and> js_get (JObj opts) ''path'' = JStr (''/'' @ path)"
  unfolding client_list_def Let_def
  apply (intro exI conjI)
     apply (rule refl)
    apply (simp_all add: map_of_set_prop)
  done

lemma delete_builds:
  "\<exists>opts. client_delete cfg cl path ro = client_request cfg cl (JObj opts)
     \<and> js_get (JObj opts) ''method'' = JStr ''DELETE''
     \<and> js_get (JObj opts) ''path'' = JStr (''/'' @ path)"
  unfolding client_delete_def Let_def
  apply (intro exI conjI)
     apply (rule refl)
    apply (simp_all add: map_of_set_prop)
  done

lemma help_builds:
  "\<exists>opts. client_help cfg cl path ro = client_request cfg cl (JObj opts)
     \<and> js_get (JObj opts) ''method'' = JStr ''GET''
     \<and> js_get (JObj opts) ''path'' = JStr (''/'' @ path @ ''?help=1'')"
  unfolding client_help_def Let_def
  apply (intro exI conjI)
     apply (rule refl)
    apply (simp_all add: map_of_set_prop)
  done

lemma write_builds:
  "\<exists>opts. client_write cfg cl path data ro = client_request cfg cl (JObj opts)
     \<and> js_get (JObj opts) ''method'' = JStr ''PUT''
     \<and> js_get (JObj opts) ''path'' = JStr (''/'' @ path)
     \<and> js_get (JObj opts) ''json'' = data"
  unfolding client_write_def Let_def
  apply (intro exI conjI)
     apply (rule refl)
    apply (simp_all add: map_of_set_prop)
  done

lemma built_sent:
  assumes "run = client_request cfg cl (JObj opts)" "Sent sent \<in> set (fst run)"
  shows "js_get sent ''method'' = js_get (JObj opts) ''method''
       \<and> js_get sent ''path'' = js_get (JObj opts) ''path''
       \<and> js_get sent ''json'' = js_get (JObj opts) ''json''"
  using assms sent_keeps [of sent cfg cl opts] by simp

text \<open>
  Claim C7. Each generic verb is one call of \<^verbatim>\<open>client.request\<close> on an options object
  with the verb's method and path: \<^verbatim>\<open>read\<close> uses GET and \<^verbatim>\<open>/\<close> followed by the path,
  \<^verbatim>\<open>write\<close> uses PUT, that path and the data as \<^verbatim>\<open>json\<close>, \<^verbatim>\<open>list\<close> uses LIST, \<^verbatim>\<open>delete\<close>
  uses DELETE, \<^verbatim>\<open>help\<close> uses GET and the path followed by \<^verbatim>\<open>?help=1\<close>. Any request a verb
  sends carries that method and path, and the only schema a verb validates against is
  \<^verbatim>\<open>requestSchema\<close> of \<^verbatim>\<open>client.request\<close>: no operation schema is involved.
\<close>

theorem generic_verbs:
  "(\<exists>opts. client_read cfg cl path ro = client_request cfg cl (JObj opts)
        \<and> js_get (JObj opts) ''method'' = JStr ''GET''
        \<and> js_get (JObj opts) ''path'' = JStr (''/'' @ path))
   \<and> (\<exists>opts. client_write cfg cl path data ro = client_request cfg cl (JObj opts)
        \<and> js_get (JObj opts) ''method'' = JStr ''PUT''
        \<and> js_get (JObj opts) ''path'' = JStr (''/'' @ path)
        \<and> js_get (JObj opts) ''json'' = data)
   \<and> (\<exists>opts. client_list cfg cl path ro = client_request cfg cl (JObj opts)
        \<and> js_get (JObj opts) ''method'' = JStr ''LIST''
        \<and> js_get (JObj opts) ''path'' = JStr (''/'' @ path))
   \<and> (\<exists>opts. client_delete cfg cl path ro = client_request cfg cl (JObj opts)
        \<and> js_get (JObj opts) ''method'' = JStr ''DELETE''
        \<and> js_get (JObj opts) ''path'' = JStr (''/'' @ path))
   \<and> (\<exists>opts. client_help cfg cl path ro = client_request cfg cl (JObj opts)
        \<and> js_get (JObj opts) ''method'' = JStr ''GET''
        \<and> js_get (JObj opts) ''path'' = JStr (''/'' @ path @ ''?help=1''))
   \<and> (\<forall>sent. Sent sent \<in> set (fst (client_read cfg cl path ro)) \<longrightarrow>
         js_get sent ''method'' = JStr ''GET'' \<and> js_get sent ''path'' = JStr (''/'' @ path))
   \<and> (\<forall>sent. Sent sent \<in> set (fst (client_write cfg cl path data ro)) \<longrightarrow>
         js_get sent ''method'' = JStr ''PUT'' \<and> js_get sent ''path'' = JStr (''/'' @ path)
         \<and> js_get sent ''json'' = data)
   \<and> (\<forall>sent. Sent sent \<in> set (fst (client_list cfg cl path ro)) \<longrightarrow>
         js_get sent ''method'' = JStr ''LIST'' \<and> js_get sent ''path'' = JStr (''/'' @ path))
   \<and> (\<forall>sent. Sent sent \<in> set (fst (client_delete cfg cl path ro)) \<longrightarrow>
         js_get sent ''method'' = JStr ''DELETE'' \<and> js_get sent ''path'' = JStr (''/'' @ path))
   \<and> (\<forall>sent. Sent sent \<in> set (fst (client_help cfg cl path ro)) \<longrightarrow>
         js_get sent ''method'' = JStr ''GET''
         \<and> js_get sent ''path'' = JStr (''/'' @ path @ ''?help=1''))
   \<and> (\<forall>d sc. Validated d sc \<in> set (fst (client_read cfg cl path ro))
               \<union> set (fst (client_write cfg cl path data ro))
               \<union> set (fst (client_list cfg cl path ro))
               \<union> set (fst (client_delete cfg cl path ro))
               \<union> set (fst (client_help cfg cl path ro)) \<longrightarrow> sc = requestSchema)"
proof -
  note b = read_builds [of cfg cl path ro] write_builds [of cfg cl path data ro]
    list_builds [of cfg cl path ro] delete_builds [of cfg cl path ro]
    help_builds [of cfg cl path ro]
  have r: "\<forall>sent. Sent sent \<in> set (fst (client_read cfg cl path ro)) \<longrightarrow>
         js_get sent ''method'' = JStr ''GET'' \<and> js_get sent ''path'' = JStr (''/'' @ path)"
    using b(1) built_sent by metis
  have w: "\<forall>sent. Sent sent \<in> set (fst (client_write cfg cl path data ro)) \<longrightarrow>
         js_get sent ''method'' = JStr ''PUT'' \<and> js_get sent ''path'' = JStr (''/'' @ path)
         \<and> js_get sent ''json'' = data"
    using b(2) built_sent by metis
  have l: "\<forall>sent. Sent sent \<in> set (fst (client_list cfg cl path ro)) \<longrightarrow>
         js_get sent ''method'' = JStr ''LIST'' \<and> js_get sent ''path'' = JStr (''/'' @ path)"
    using b(3) built_sent by metis
  have d: "\<forall>sent. Sent sent \<in> set (fst (client_delete cfg cl path ro)) \<longrightarrow>
         js_get sent ''method'' = JStr ''DELETE'' \<and> js_get sent ''path'' = JStr (''/'' @ path)"
    using b(4) built_sent by metis
  have h: "\<forall>sent. Sent sent \<in> set (fst (client_help cfg cl path ro)) \<longrightarrow>
         js_get sent ''method'' = JStr ''GET''
         \<and> js_get sent ''path'' = JStr (''/'' @ path @ ''?help=1'')"
    using b(5) built_sent by metis
  have v: "\<forall>d sc. Validated d sc \<in> set (fst (client_read cfg cl path ro))
               \<union> set (fst (client_write cfg cl path data ro))
               \<union> set (fst (client_list cfg cl path ro))
               \<union> set (fst (client_delete cfg cl path ro))
               \<union> set (fst (client_help cfg cl path ro)) \<longrightarrow> sc = requestSchema"
    using b client_request_validated by (metis Un_iff)
  from b r w l d h v show ?thesis by (intro conjI)
qed

theorem generic_verbs_witness:
  "Sent (JObj [(''path'', JStr ''/secret''), (''method'', JStr ''LIST''),
       (''headers'', JObj [(''X-Vault-Token'', JStr ''tok'')]),
       (''uri'', JStr ''http://127.0.0.1:8200/v1/secret'')])
     \<in> set (fst (client_list (default_config transport_ok) (default_client (JStr ''tok''))
                 ''secret'' JUndefined))
   \<and> Validated (JObj [(''path'', JStr ''/secret''), (''method'', JStr ''LIST'')]) requestSchema
     \<in> set (fst (client_list (default_config transport_ok) (default_client (JStr ''tok''))
                 ''secret'' JUndefined))"
proof -
  have run: "fst (client_list (default_config transport_ok) (default_client (JStr ''tok''))
                ''secret'' JUndefined)
    = [Validated (JObj [(''path'', JStr ''/secret''), (''method'', JStr ''LIST'')]) requestSchema,
       Sent (JObj [(''path'', JStr ''/secret''), (''method'', JStr ''LIST''),
         (''headers'', JObj [(''X-Vault-Token'', JStr ''tok'')]),
         (''uri'', JStr ''http://127.0.0.1:8200/v1/secret'')])]"
    by code_simp
  show ?thesis
    using generic_verbs [of "default_config transport_ok" "default_client (JStr ''tok'')"
        "''secret''" JUndefined JUndefined]
    by (simp add: run)
qed


section \<open>Validation of the options of a request\<close>

lemma tv4_string_schema:
  "tv4_validateAll v (JObj [(''type'', JStr ''string'')]) p = None \<Longrightarrow> \<exists>s. v = JStr s"
  by (cases v)
    (auto simp: tv4_validateAll.simps(1) validateType_def json_type_def Let_def
      split: option.splits if_splits)

lemma validateObjectProperties_error:
  assumes "k \<in> set keys" "map_of pkvs k = Some sub"
    and "tv4_validateAll (js_get d k) sub (dp @ ''/'' @ pointer_escape k) \<noteq> None"
  shows "validateObjectProperties keys d pkvs dp \<noteq> None"
  using assms
  by (induction keys) (auto split: option.splits)

lemma tv4_requestSchema_valid:
  assumes "tv4_validate d requestSchema = None"
  shows "\<exists>kvs p m. d = JObj kvs \<and> map_of kvs ''path'' = Some (JStr p)
           \<and> map_of kvs ''method'' = Some (JStr m)"
proof -
  let ?str = "JObj [(''type'', JStr ''string'')]"
  let ?props = "[(''path'', ?str), (''method'', ?str)]"
  from assms obtain kvs where d: "d = JObj kvs"
    by (cases d)
      (auto simp: tv4_validate_def requestSchema_def tv4_validateAll.simps(1) validateType_def
        json_type_def Let_def split: option.splits if_splits)
  from assms d have req: "js_get d ''path'' \<noteq> JUndefined" "js_get d ''method'' \<noteq> JUndefined"
    and props: "validateObjectProperties (map fst kvs) d ?props [] = None"
    by (auto simp: tv4_validate_def requestSchema_def tv4_validateAll.simps(1) validateType_def
        json_type_def Let_def split: option.splits if_splits)
  from req d have keys: "''path'' \<in> set (map fst kvs)" "''method'' \<in> set (map fst kvs)"
    by (auto split: option.splits dest: map_of_SomeD intro: rev_image_eqI)
  have "tv4_validateAll (js_get d ''path'') ?str ([] @ ''/'' @ pointer_escape ''path'') = None"
  proof (rule ccontr)
    assume "tv4_validateAll (js_get d ''path'') ?str ([] @ ''/'' @ pointer_escape ''path'') \<noteq> None"
    then have "validateObjectProperties (map fst kvs) d ?props [] \<noteq> None"
      by (intro validateObjectProperties_error [OF keys(1)]) simp_all
    with props show False by simp
  qed
  then obtain p where p: "js_get d ''path'' = JStr p" by (auto dest: tv4_string_schema)
  have "tv4_validateAll (js_get d ''method'') ?str ([] @ ''/'' @ pointer_escape ''method'') = None"
  proof (rule ccontr)
    assume "tv4_validateAll (js_get d ''method'') ?str ([] @ ''/'' @ pointer_escape ''method'') \<noteq> None"
    then have "validateObjectProperties (map fst kvs) d ?props [] \<noteq> None"
      by (intro validateObjectProperties_error [OF keys(2)]) simp_all
    with props show False by simp
  qed
  then obtain m where m: "js_get d ''method'' = JStr m" by (auto dest: tv4_string_schema)
  from d p m show ?thesis by (auto split: option.splits)
qed

lemma requestSchema_defined: "requestSchema \<noteq> JUndefined"
  by (simp add: requestSchema_def)

text \<open>
  Claim C8. With the default validator, a call of \<^verbatim>\<open>client.request\<close> on options that are
  not an object with a string \<^verbatim>\<open>path\<close> and a string \<^verbatim>\<open>method\<close> rejects with the
  validator's error and sends nothing. The call settles exactly as \<^verbatim>\<open>validate\<close>, the
  function that checks the operation schemas, settles on the same options and
  \<^verbatim>\<open>requestSchema\<close>.
\<close>

theorem request_requires_path_and_method:
  assumes "tv4 cfg = tv4_validate"
    and "\<not> (\<exists>kvs p m. options = JObj kvs \<and> map_of kvs ''path'' = Some (JStr p)
              \<and> map_of kvs ''method'' = Some (JStr m))"
  shows "\<exists>err. client_request cfg cl options =
            ([Validated (if options = JUndefined then JObj [] else options) requestSchema],
             Rejects (ValidationError err))
        \<and> validate cfg (if options = JUndefined then JObj [] else options) requestSchema =
            client_request cfg cl options
        \<and> (\<forall>sent. Sent sent \<notin> set (fst (client_request cfg cl options)))"
proof -
  let ?opts = "if strict_ne options JUndefined then options else JObj []"
  have same: "?opts = (if options = JUndefined then JObj [] else options)"
    by (simp add: strict_ne_def strict_eq_def)
  have "tv4_validate ?opts requestSchema \<noteq> None"
  proof
    assume "tv4_validate ?opts requestSchema = None"
    from tv4_requestSchema_valid [OF this] assms(2) show False
      by (auto simp: strict_ne_def strict_eq_def split: if_splits)
  qed
  then obtain err where err: "tv4 cfg ?opts requestSchema = Some err"
    using assms(1) by auto
  have run: "client_request cfg cl options = ([Validated ?opts requestSchema], Rejects (ValidationError err))"
    using err by (rule client_request_invalid)
  have val: "validate cfg ?opts requestSchema = ([Validated ?opts requestSchema], Rejects (ValidationError err))"
    using err by (simp add: validate_def strict_eq_def requestSchema_defined)
  show ?thesis
    using run val unfolding same by auto
qed

theorem request_requires_path_and_method_witness:
  "client_request (default_config transport_ok) (default_client (JStr ''tok''))
       (JObj [(''path'', JStr ''/sys/mounts'')])
     = ([Validated (JObj [(''path'', JStr ''/sys/mounts'')]) requestSchema],
        Rejects (ValidationError (Tv4Error ''Missing required property: method'' [])))
   \<and> client_request (default_config transport_ok) (default_client (JStr ''tok''))
       (JObj [(''path'', JStr ''/sys/mounts''), (''method'', JNum 3)])
     = ([Validated (JObj [(''path'', JStr ''/sys/mounts''), (''method'', JNum 3)]) requestSchema],
        Rejects (ValidationError (Tv4Error ''Invalid type: number (expected string)'' ''/method'')))"
proof -
  have cfg: "tv4 (default_config transport_ok) = tv4_validate"
    by (simp add: default_config_def)
  have e1: "tv4_validate (JObj [(''path'', JStr ''/sys/mounts'')]) requestSchema
      = Some (Tv4Error ''Missing required property: method'' [])"
    by code_simp
  have e2: "tv4_validate (JObj [(''path'', JStr ''/sys/mounts''), (''method'', JNum 3)]) requestSchema
      = Some (Tv4Error ''Invalid type: number (expected string)'' ''/method'')"
    by code_simp
  show ?thesis
    using
      request_requires_path_and_method [OF cfg, of "JObj [(''path'', JStr ''/sys/mounts'')]"
        "default_client (JStr ''tok'')"]
      request_requires_path_and_method [OF cfg,
        of "JObj [(''path'', JStr ''/sys/mounts''), (''method'', JNum 3)]"
        "default_client (JStr ''tok'')"]
    by (auto simp: validate_def strict_eq_def cfg e1 e2 requestSchema_defined)
qed



text \<open>
  The condition of line 79 holds for every token, so the header is written for an empty
  token as well.
\<close>

lemma empty_token_header_is_sent:
  "fst (client_request (default_config transport_ok) (default_client (JStr []))
          (JObj [(''path'', JStr ''/sys/mounts''), (''method'', JStr ''GET'')]))
    = [Validated (JObj [(''path'', JStr ''/sys/mounts''), (''method'', JStr ''GET'')]) requestSchema,
       Sent (JObj [(''path'', JStr ''/sys/mounts''), (''method'', JStr ''GET''),
           (''headers'', JObj [(''X-Vault-Token'', JStr [])]),
           (''uri'', JStr ''http://127.0.0.1:8200/v1/sys/mounts'')])]"
  by code_simp



section \<open>The query extension\<close>












section \<open>The generated operations and their validation\<close>

lemma validate_events:
  "fst (validate cfg j sc) = (if sc = JUndefined then [] else [Validated j sc])"
  by (simp add: validate_def strict_eq_def split: option.splits)

lemma validate_no_sent: "Sent x \<notin> set (fst (validate cfg j sc))"
  by (simp add: validate_events)

lemma then_io_sent:
  assumes "Sent x \<in> set (fst (then_io p f))"
  shows "Sent x \<in> set (fst p) \<or> (\<exists>y. snd p = Resolves y \<and> Sent x \<in> set (fst (f y)))"
  using assms by (auto simp: then_io_def split: outcome.splits)

lemma then_io_resolves:
  "snd (then_io p f) = Resolves z \<Longrightarrow> \<exists>y. snd p = Resolves y \<and> snd (f y) = Resolves z"
  by (auto simp: then_io_def split: outcome.splits)

lemma then_io_events:
  "snd p = Resolves y \<Longrightarrow> fst (then_io p f) = fst p @ fst (f y)"
  by (auto simp: then_io_def split: outcome.splits)

lemma extendOptions_keeps:
  assumes "extendOptions conf options = Resolves ext" "k \<noteq> ''path''"
  shows "js_get (JObj ext) k = js_get (JObj options) k"
  using assms
  by (auto simp: extendOptions_def Let_def map_of_set_prop split: option.splits if_splits)

lemma map_of_foldl_set_prop:
  "map_of (foldl (\<lambda>acc k. set_prop acc k (f k)) t keys) k =
     (if k \<in> set keys then Some (f k) else map_of t k)"
  by (induction keys arbitrary: t) (auto simp: map_of_set_prop)

lemma generated_options_json:
  "js_get (JObj (generated_options cfg conf args)) ''json'' = args"
  by (simp add: generated_options_def Let_def map_of_set_prop)

lemma generated_options_method_path:
  "js_get (JObj (generated_options cfg conf args)) ''method'' = JStr (cmd_method conf)
   \<and> js_get (JObj (generated_options cfg conf args)) ''path'' = JStr (cmd_path conf)"
  by (simp add: generated_options_def Let_def map_of_set_prop)

lemma headers_shared_iff:
  "headers_shared args =
     (\<exists>a ro hs. args = JObj a \<and> map_of a ''requestOptions'' = Some (JObj ro) \<and>
        map_of ro ''headers'' = Some (JObj hs))"
proof (cases args)
  case (JObj a)
  show ?thesis
  proof (cases "map_of a ''requestOptions''")
    case None
    with JObj show ?thesis by (simp add: headers_shared_def)
  next
    case (Some r)
    show ?thesis
    proof (cases r)
      case (JObj ro)
      show ?thesis
      proof (cases "map_of ro ''headers''")
        case None
        with \<open>args = JObj a\<close> Some JObj show ?thesis by (simp add: headers_shared_def)
      next
        case (Some h)
        with \<open>args = JObj a\<close> \<open>map_of a ''requestOptions'' = Some r\<close> JObj show ?thesis
          by (cases h) (simp_all add: headers_shared_def)
      qed
    qed (use \<open>args = JObj a\<close> Some in \<open>simp_all add: headers_shared_def\<close>)
  qed
qed (simp_all add: headers_shared_def parse_index_def is_digit_def split: option.splits)

lemma headers_sharedD:
  assumes "headers_shared args"
  obtains a ro hs where "args = JObj a" "map_of a ''requestOptions'' = Some (JObj ro)"
    "map_of ro ''headers'' = Some (JObj hs)"
  using assms unfolding headers_shared_iff by blast

lemma generated_options_headers:
  assumes "args = JObj a" "map_of a ''requestOptions'' = Some (JObj ro)"
    "map_of ro ''headers'' = Some (JObj hs)"
  shows "js_get (JObj (generated_options cfg conf args)) ''headers'' = JObj hs"
proof -
  from assms(3) have "''headers'' \<in> set (map fst ro)"
    by (auto dest: map_of_SomeD intro: rev_image_eqI)
  then show ?thesis
    using assms
    by (simp add: generated_options_def Let_def map_of_set_prop object_assign_def
        map_of_foldl_set_prop)
qed

lemma args_when_sent_shared:
  assumes "args = JObj a" "map_of a ''requestOptions'' = Some (JObj ro)"
    "map_of ro ''headers'' = Some (JObj hs)"
  shows "args_when_sent cl args =
           JObj (set_prop a ''requestOptions''
             (JObj (set_prop ro ''headers''
               (JObj (set_prop hs ''X-Vault-Token'' (token cl))))))"
  using assms by (simp add: args_when_sent_def)

lemma args_when_sent_unshared: "\<not> headers_shared args \<Longrightarrow> args_when_sent cl args = args"
  unfolding headers_shared_iff
  by (auto simp: args_when_sent_def split: jsval.splits option.splits)

lemma sent_json:
  assumes sent: "Sent sent \<in> set (fst (client_request_on (headers_shared args) cfg cl (JObj opts)))"
    and json: "js_get (JObj opts) ''json'' = args"
    and hdrs: "\<And>a ro hs. args = JObj a \<Longrightarrow> map_of a ''requestOptions'' = Some (JObj ro) \<Longrightarrow>
                map_of ro ''headers'' = Some (JObj hs) \<Longrightarrow> js_get (JObj opts) ''headers'' = JObj hs"
  shows "js_get sent ''json'' = args_when_sent cl args"
proof -
  from client_request_on_sent [OF sent] obtain uri
    where s: "set_headers_uri (headers_shared args) cl (JObj opts) uri = Some sent"
    by (auto simp: strict_ne_def strict_eq_def)
  show ?thesis
  proof (cases "headers_shared args")
    case False
    with s have "js_get sent ''json'' = js_get (JObj opts) ''json''"
      by (intro set_headers_uri_other) auto
    with json False show ?thesis by (simp add: args_when_sent_unshared)
  next
    case True
    then obtain a ro hs where a: "args = JObj a" "map_of a ''requestOptions'' = Some (JObj ro)"
      "map_of ro ''headers'' = Some (JObj hs)"
      by (rule headers_sharedD)
    from hdrs [OF a] have h: "js_get (JObj opts) ''headers'' = JObj hs" .
    from json a(1) have j: "map_of opts ''json'' = Some (JObj a)"
      by (auto split: option.splits)
    from set_headers_uri_Some [OF s] True h
    have "sent = share_headers
        (JObj (set_prop (set_prop (set_prop opts ''headers'' (JObj hs)) ''headers''
                  (JObj (set_prop hs ''X-Vault-Token'' (token cl)))) ''uri'' (JStr uri)))
        (JObj (set_prop hs ''X-Vault-Token'' (token cl)))"
      by (auto simp del: js_get.simps)
    then show ?thesis
      using a j by (simp add: share_headers_def map_of_set_prop args_when_sent_shared)
  qed
qed

lemma map_fst_set_prop: "k \<in> fst ` set ps \<Longrightarrow> map fst (set_prop ps k v) = map fst ps"
  by (induction ps) force+

lemma map_of_fst: "map_of ps k = Some v \<Longrightarrow> k \<in> fst ` set ps"
  by (auto dest: map_of_SomeD intro: rev_image_eqI)

lemma args_when_sent_keys: "object_keys (args_when_sent cl args) = object_keys args"
proof (cases "headers_shared args")
  case True
  then show ?thesis
    by (elim headers_sharedD) (simp add: args_when_sent_shared map_fst_set_prop map_of_fst)
qed (simp add: args_when_sent_unshared)

lemma args_when_sent_fields:
  "k \<noteq> ''requestOptions'' \<Longrightarrow> js_get (args_when_sent cl args) k = js_get args k"
proof (cases "headers_shared args")
  case True
  assume "k \<noteq> ''requestOptions''"
  with True show ?thesis
    by (elim headers_sharedD) (simp add: args_when_sent_shared map_of_set_prop)
qed (simp add: args_when_sent_unshared)

lemma args_when_sent_requestOptions:
  "k \<noteq> ''headers'' \<Longrightarrow>
   js_get (js_get (args_when_sent cl args) ''requestOptions'') k =
     js_get (js_get args ''requestOptions'') k"
proof (cases "headers_shared args")
  case True
  assume "k \<noteq> ''headers''"
  with True show ?thesis
    by (elim headers_sharedD) (simp add: args_when_sent_shared map_of_set_prop)
qed (simp add: args_when_sent_unshared)

lemma args_when_sent_headers:
  "k \<noteq> ''X-Vault-Token'' \<Longrightarrow>
   js_get (js_get (js_get (args_when_sent cl args) ''requestOptions'') ''headers'') k =
     js_get (js_get (js_get args ''requestOptions'') ''headers'') k"
proof (cases "headers_shared args")
  case True
  assume "k \<noteq> ''X-Vault-Token''"
  with True show ?thesis
    by (elim headers_sharedD) (simp add: args_when_sent_shared map_of_set_prop)
qed (simp add: args_when_sent_unshared)

lemma args_when_sent_token:
  "headers_shared args \<Longrightarrow>
   js_get (js_get (js_get (args_when_sent cl args) ''requestOptions'') ''headers'')
     ''X-Vault-Token'' = token cl"
  by (erule headers_sharedD) (simp add: args_when_sent_shared map_of_set_prop)


lemma given_args_args:
  "(if strict_ne arg JUndefined then arg else JObj []) = given_args arg"
  by (simp add: given_args_def strict_ne_def strict_eq_def)

lemma generateFunction_without_schema:
  assumes "cmd_schema conf = None" "arg \<noteq> JNull"
  shows "generateFunction cfg cl conf arg =
           client_request_on (headers_shared (given_args arg)) cfg cl
             (JObj (generated_options cfg conf (given_args arg)))"
  using assms
  by (simp add: generateFunction_def given_args_args Let_def) (simp add: given_args_def)

lemma generateFunction_with_schema:
  assumes "cmd_schema conf = Some sch" "arg \<noteq> JNull"
    and "req sch = JUndefined \<or> tv4 cfg (given_args arg) (req sch) = None"
    and "extendOptions conf (generated_options cfg conf (given_args arg)) = Resolves ext"
  shows "fst (generateFunction cfg cl conf arg) =
           fst (validate cfg (given_args arg) (req sch))
           @ fst (validate cfg (given_args arg) (query sch))
           @ fst (client_request_on (headers_shared (given_args arg)) cfg cl (JObj ext))"
proof -
  from assms(3) have v: "snd (validate cfg (given_args arg) (req sch)) = Resolves JUndefined"
    by (auto simp: validate_def strict_eq_def)
  from assms(2) have n: "given_args arg \<noteq> JNull" by (simp add: given_args_def)
  show ?thesis
    using assms(1,4) v n
    by (simp add: generateFunction_def given_args_args Let_def then_io_def then_ignored_def
        split: outcome.splits)
qed

lemma generated_sent_json:
  assumes "Sent sent \<in> set (fst (generateFunction cfg cl conf arg))"
  shows "js_get sent ''json'' = args_when_sent cl (given_args arg)"
proof -
  let ?args = "given_args arg"
  let ?options = "generated_options cfg conf ?args"
  from assms have nn: "arg \<noteq> JNull"
    by (auto simp: generateFunction_def given_args_args given_args_def Let_def split: if_splits)
  show ?thesis
  proof (cases "cmd_schema conf")
    case None
    with assms nn
    have "Sent sent \<in> set (fst (client_request_on (headers_shared ?args) cfg cl (JObj ?options)))"
      by (simp add: generateFunction_without_schema)
    then show ?thesis
      by (rule sent_json) (simp_all only: generated_options_json generated_options_headers)
  next
    case (Some sch)
    let ?p1 = "then_ignored (validate cfg ?args (req sch)) (validate cfg ?args (query sch))"
    let ?p2 = "then_io ?p1 (\<lambda>_. ([], extendOptions conf ?options))"
    from assms Some have s: "Sent sent \<in> set (fst (then_io ?p2
        (\<lambda>extendedOptions. client_request_on (headers_shared ?args) cfg cl (JObj extendedOptions))))"
      by (auto simp: generateFunction_def given_args_args Let_def split: if_splits)
    have no1: "Sent sent \<notin> set (fst ?p1)"
      by (simp add: then_ignored_def validate_no_sent)
    have no2: "Sent sent \<notin> set (fst ?p2)"
      using then_io_sent [of sent ?p1 "\<lambda>_. ([], extendOptions conf ?options)"] no1 by auto
    from then_io_sent [OF s] no2 obtain ext
      where ext: "snd ?p2 = Resolves ext"
        and sent: "Sent sent \<in> set (fst (client_request_on (headers_shared ?args) cfg cl (JObj ext)))"
      by blast
    from then_io_resolves [OF ext] have e: "extendOptions conf ?options = Resolves ext"
      by auto
    from sent show ?thesis
    proof (rule sent_json)
      show "js_get (JObj ext) ''json'' = ?args"
        using extendOptions_keeps [OF e, of "''json''"] by (simp only: generated_options_json) simp
    next
      fix a ro hs
      assume "?args = JObj a" "map_of a ''requestOptions'' = Some (JObj ro)"
        "map_of ro ''headers'' = Some (JObj hs)"
      then have "js_get (JObj ?options) ''headers'' = JObj hs"
        by (rule generated_options_headers)
      with extendOptions_keeps [OF e, of "''headers''"]
      show "js_get (JObj ext) ''headers'' = JObj hs" by simp
    qed
  qed
qed

text \<open>
  Claim C10, as amended. A generated operation whose options pass \<^verbatim>\<open>client.request\<close>
  (valid against the request schema, a URI built, headers that can take the token) sends
  one request, with or without a schema of its own, and the \<^verbatim>\<open>json\<close> of every request it
  sends is the argument as it stands when the request goes out: the argument as passed,
  except that a headers object at \<^verbatim>\<open>args.requestOptions.headers\<close> is the headers object
  of the request and so holds the client's token under \<^verbatim>\<open>X-Vault-Token\<close>. No field is
  removed: the keys are those of the argument, every field but \<^verbatim>\<open>requestOptions\<close> is as
  passed, so are the fields of \<^verbatim>\<open>requestOptions\<close> but \<^verbatim>\<open>headers\<close> and the headers but the
  token, and without such a headers object the \<^verbatim>\<open>json\<close> is the argument as passed.
\<close>

theorem generated_sends_whole_args:
  "(arg \<noteq> JNull \<and> cmd_schema conf = None
      \<and> tv4 cfg (JObj (generated_options cfg conf (given_args arg))) requestSchema = None
      \<and> build_uri cfg cl (JObj (generated_options cfg conf (given_args arg))) = Inr uri
      \<and> writable_headers (js_get (JObj (generated_options cfg conf (given_args arg))) ''headers'')
    \<longrightarrow> (\<exists>sent. fst (generateFunction cfg cl conf arg)
                   = [Validated (JObj (generated_options cfg conf (given_args arg))) requestSchema,
                      Sent sent]
              \<and> js_get sent ''json'' = args_when_sent cl (given_args arg)))
   \<and> (arg \<noteq> JNull \<and> cmd_schema conf = Some sch
      \<and> (req sch = JUndefined \<or> tv4 cfg (given_args arg) (req sch) = None)
      \<and> extendOptions conf (generated_options cfg conf (given_args arg)) = Resolves ext
      \<and> tv4 cfg (JObj ext) requestSchema = None
      \<and> build_uri cfg cl (JObj ext) = Inr uri'
      \<and> writable_headers (js_get (JObj ext) ''headers'')
    \<longrightarrow> (\<exists>sent. fst (generateFunction cfg cl conf arg)
                   = fst (validate cfg (given_args arg) (req sch))
                     @ fst (validate cfg (given_args arg) (query sch))
                     @ [Validated (JObj ext) requestSchema, Sent sent]
              \<and> js_get sent ''json'' = args_when_sent cl (given_args arg)))
   \<and> (\<forall>sent. Sent sent \<in> set (fst (generateFunction cfg cl conf arg)) \<longrightarrow>
         js_get sent ''json'' = args_when_sent cl (given_args arg))
   \<and> object_keys (args_when_sent cl args) = object_keys args
   \<and> (\<forall>k. k \<noteq> ''requestOptions'' \<longrightarrow> js_get (args_when_sent cl args) k = js_get args k)
   \<and> (\<forall>k. k \<noteq> ''headers'' \<longrightarrow>
         js_get (js_get (args_when_sent cl args) ''requestOptions'') k
           = js_get (js_get args ''requestOptions'') k)
   \<and> (\<forall>k. k \<noteq> ''X-Vault-Token'' \<longrightarrow>
         js_get (js_get (js_get (args_when_sent cl args) ''requestOptions'') ''headers'') k
           = js_get (js_get (js_get args ''requestOptions'') ''headers'') k)
   \<and> (headers_shared args \<longrightarrow>
         js_get (js_get (js_get (args_when_sent cl args) ''requestOptions'') ''headers'')
           ''X-Vault-Token'' = token cl)
   \<and> (\<not> headers_shared args \<longrightarrow> args_when_sent cl args = args)"
proof (intro conjI impI allI)
  assume a: "arg \<noteq> JNull \<and> cmd_schema conf = None
      \<and> tv4 cfg (JObj (generated_options cfg conf (given_args arg))) requestSchema = None
      \<and> build_uri cfg cl (JObj (generated_options cfg conf (given_args arg))) = Inr uri
      \<and> writable_headers (js_get (JObj (generated_options cfg conf (given_args arg))) ''headers'')"
  then have g: "generateFunction cfg cl conf arg =
           client_request_on (headers_shared (given_args arg)) cfg cl
             (JObj (generated_options cfg conf (given_args arg)))"
    by (intro generateFunction_without_schema) simp_all
  from a obtain sent where s: "fst (generateFunction cfg cl conf arg)
         = [Validated (JObj (generated_options cfg conf (given_args arg))) requestSchema, Sent sent]"
    unfolding g using client_request_on_sends by blast
  then have "Sent sent \<in> set (fst (generateFunction cfg cl conf arg))" by simp
  then have "js_get sent ''json'' = args_when_sent cl (given_args arg)"
    by (rule generated_sent_json)
  with s show "\<exists>sent. fst (generateFunction cfg cl conf arg)
                   = [Validated (JObj (generated_options cfg conf (given_args arg))) requestSchema,
                      Sent sent]
              \<and> js_get sent ''json'' = args_when_sent cl (given_args arg)"
    by blast
next
  assume a: "arg \<noteq> JNull \<and> cmd_schema conf = Some sch
      \<and> (req sch = JUndefined \<or> tv4 cfg (given_args arg) (req sch) = None)
      \<and> extendOptions conf (generated_options cfg conf (given_args arg)) = Resolves ext
      \<and> tv4 cfg (JObj ext) requestSchema = None
      \<and> build_uri cfg cl (JObj ext) = Inr uri'
      \<and> writable_headers (js_get (JObj ext) ''headers'')"
  then have g: "fst (generateFunction cfg cl conf arg) =
           fst (validate cfg (given_args arg) (req sch))
           @ fst (validate cfg (given_args arg) (query sch))
           @ fst (client_request_on (headers_shared (given_args arg)) cfg cl (JObj ext))"
    by (intro generateFunction_with_schema) simp_all
  from a obtain sent
    where c: "fst (client_request_on (headers_shared (given_args arg)) cfg cl (JObj ext))
                = [Validated (JObj ext) requestSchema, Sent sent]"
    using client_request_on_sends by blast
  with g have "Sent sent \<in> set (fst (generateFunction cfg cl conf arg))" by simp
  then have "js_get sent ''json'' = args_when_sent cl (given_args arg)"
    by (rule generated_sent_json)
  with g c show "\<exists>sent. fst (generateFunction cfg cl conf arg)
                   = fst (validate cfg (given_args arg) (req sch))
                     @ fst (validate cfg (given_args arg) (query sch))
                     @ [Validated (JObj ext) requestSchema, Sent sent]
              \<and> js_get sent ''json'' = args_when_sent cl (given_args arg)"
    by simp
next
  fix sent
  assume "Sent sent \<in> set (fst (generateFunction cfg cl conf arg))"
  then show "js_get sent ''json'' = args_when_sent cl (given_args arg)"
    by (rule generated_sent_json)
next
  show "object_keys (args_when_sent cl args) = object_keys args"
    by (rule args_when_sent_keys)
next
  fix k :: string
  assume "k \<noteq> ''requestOptions''"
  then show "js_get (args_when_sent cl args) k = js_get args k"
    by (rule args_when_sent_fields)
next
  fix k :: string
  assume "k \<noteq> ''headers''"
  then show "js_get (js_get (args_when_sent cl args) ''requestOptions'') k
           = js_get (js_get args ''requestOptions'') k"
    by (rule args_when_sent_requestOptions)
next
  fix k :: string
  assume "k \<noteq> ''X-Vault-Token''"
  then show "js_get (js_get (js_get (args_when_sent cl args) ''requestOptions'') ''headers'') k
           = js_get (js_get (js_get args ''requestOptions'') ''headers'') k"
    by (rule args_when_sent_headers)
next
  assume "headers_shared args"
  then show "js_get (js_get (js_get (args_when_sent cl args) ''requestOptions'') ''headers'')
           ''X-Vault-Token'' = token cl"
    by (rule args_when_sent_token)
next
  assume "\<not> headers_shared args"
  then show "args_when_sent cl args = args"
    by (rule args_when_sent_unshared)
qed

theorem generated_sends_whole_args_witness:
  "fst (generateFunction (default_config transport_ok) (default_client (JStr ''tok''))
          \<lparr>cmd_method = ''PUT'', cmd_path = ''/secret/{{name}}'', cmd_schema = None\<rparr>
          (JObj [(''name'', JStr ''foo''), (''value'', JStr ''bar''),
              (''requestOptions'', JObj [(''timeout'', JNum 5)])]))
     = [Validated (JObj [(''timeout'', JNum 5), (''method'', JStr ''PUT''),
          (''path'', JStr ''/secret/{{name}}''),
          (''json'', JObj [(''name'', JStr ''foo''), (''value'', JStr ''bar''),
              (''requestOptions'', JObj [(''timeout'', JNum 5)])])]) requestSchema,
        Sent (JObj [(''timeout'', JNum 5), (''method'', JStr ''PUT''),
          (''path'', JStr ''/secret/{{name}}''),
          (''json'', JObj [(''name'', JStr ''foo''), (''value'', JStr ''bar''),
              (''requestOptions'', JObj [(''timeout'', JNum 5)])]),
          (''headers'', JObj [(''X-Vault-Token'', JStr ''tok'')]),
          (''uri'', JStr ''http://127.0.0.1:8200/v1/secret/foo'')])]
   \<and> js_get (JObj [(''timeout'', JNum 5), (''method'', JStr ''PUT''),
          (''path'', JStr ''/secret/{{name}}''),
          (''json'', JObj [(''name'', JStr ''foo''), (''value'', JStr ''bar''),
              (''requestOptions'', JObj [(''timeout'', JNum 5)])]),
          (''headers'', JObj [(''X-Vault-Token'', JStr ''tok'')]),
          (''uri'', JStr ''http://127.0.0.1:8200/v1/secret/foo'')]) ''json''
     = (JObj [(''name'', JStr ''foo''), (''value'', JStr ''bar''),
              (''requestOptions'', JObj [(''timeout'', JNum 5)])])
   \<and> fst (generateFunction (default_config transport_ok) (default_client (JStr ''tok''))
          \<lparr>cmd_method = ''GET'', cmd_path = ''/secret/{{name}}'',
           cmd_schema = Some \<lparr>req = JObj [(''type'', JStr ''object'')],
             query = JObj [(''properties'', JObj [(''list'', JObj [])])]\<rparr>\<rparr>
          (JObj [(''name'', JStr ''foo''), (''list'', JBool True),
                 (''requestOptions'', JObj [(''timeout'', JNum 5),
                    (''headers'', JObj [(''X-Vault-Token'', JStr ''mine'')])])]))
     = [Validated (JObj [(''name'', JStr ''foo''), (''list'', JBool True),
                 (''requestOptions'', JObj [(''timeout'', JNum 5),
                    (''headers'', JObj [(''X-Vault-Token'', JStr ''mine'')])])]) (JObj [(''type'', JStr ''object'')]),
        Validated (JObj [(''name'', JStr ''foo''), (''list'', JBool True),
                 (''requestOptions'', JObj [(''timeout'', JNum 5),
                    (''headers'', JObj [(''X-Vault-Token'', JStr ''mine'')])])])
          (JObj [(''properties'', JObj [(''list'', JObj [])])]),
        Validated (JObj [(''timeout'', JNum 5), (''headers'', JObj [(''X-Vault-Token'', JStr ''mine'')]),
          (''method'', JStr ''GET''), (''path'', JStr ''/secret/{{name}}?list=true''),
          (''json'', JObj [(''name'', JStr ''foo''), (''list'', JBool True),
                 (''requestOptions'', JObj [(''timeout'', JNum 5),
                    (''headers'', JObj [(''X-Vault-Token'', JStr ''mine'')])])])]) requestSchema,
        Sent (JObj [(''timeout'', JNum 5), (''headers'', JObj [(''X-Vault-Token'', JStr ''tok'')]),
          (''method'', JStr ''GET''), (''path'', JStr ''/secret/{{name}}?list=true''),
          (''json'', JObj [(''name'', JStr ''foo''), (''list'', JBool True),
                 (''requestOptions'', JObj [(''timeout'', JNum 5),
                    (''headers'', JObj [(''X-Vault-Token'', JStr ''tok'')])])]),
          (''uri'', JStr ''http://127.0.0.1:8200/v1/secret/foo?list=true'')])]
   \<and> js_get (JObj [(''timeout'', JNum 5), (''headers'', JObj [(''X-Vault-Token'', JStr ''tok'')]),
          (''method'', JStr ''GET''), (''path'', JStr ''/secret/{{name}}?list=true''),
          (''json'', JObj [(''name'', JStr ''foo''), (''list'', JBool True),
                 (''requestOptions'', JObj [(''timeout'', JNum 5),
                    (''headers'', JObj [(''X-Vault-Token'', JStr ''tok'')])])]),
          (''uri'', JStr ''http://127.0.0.1:8200/v1/secret/foo?list=true'')]) ''json''
     = (JObj [(''name'', JStr ''foo''), (''list'', JBool True),
                 (''requestOptions'', JObj [(''timeout'', JNum 5),
                    (''headers'', JObj [(''X-Vault-Token'', JStr ''tok'')])])])"
proof -
  have o1: "generated_options (default_config transport_ok) \<lparr>cmd_method = ''PUT'', cmd_path = ''/secret/{{name}}'', cmd_schema = None\<rparr>
          (given_args (JObj [(''name'', JStr ''foo''), (''value'', JStr ''bar''),
              (''requestOptions'', JObj [(''timeout'', JNum 5)])]))
     = [(''timeout'', JNum 5), (''method'', JStr ''PUT''),
          (''path'', JStr ''/secret/{{name}}''),
          (''json'', JObj [(''name'', JStr ''foo''), (''value'', JStr ''bar''),
              (''requestOptions'', JObj [(''timeout'', JNum 5)])])]"
    by code_simp
  have v1: "tv4 (default_config transport_ok) (JObj [(''timeout'', JNum 5), (''method'', JStr ''PUT''),
          (''path'', JStr ''/secret/{{name}}''),
          (''json'', JObj [(''name'', JStr ''foo''), (''value'', JStr ''bar''),
              (''requestOptions'', JObj [(''timeout'', JNum 5)])])]) requestSchema = None"
    by code_simp
  have u1: "build_uri (default_config transport_ok) (default_client (JStr ''tok'')) (JObj [(''timeout'', JNum 5), (''method'', JStr ''PUT''),
          (''path'', JStr ''/secret/{{name}}''),
          (''json'', JObj [(''name'', JStr ''foo''), (''value'', JStr ''bar''),
              (''requestOptions'', JObj [(''timeout'', JNum 5)])])])
     = Inr ''http://127.0.0.1:8200/v1/secret/foo''"
    by code_simp
  have h1: "writable_headers (js_get (JObj [(''timeout'', JNum 5), (''method'', JStr ''PUT''),
          (''path'', JStr ''/secret/{{name}}''),
          (''json'', JObj [(''name'', JStr ''foo''), (''value'', JStr ''bar''),
              (''requestOptions'', JObj [(''timeout'', JNum 5)])])]) ''headers'')"
    by code_simp
  have a1: "args_when_sent (default_client (JStr ''tok'')) (given_args (JObj [(''name'', JStr ''foo''), (''value'', JStr ''bar''),
              (''requestOptions'', JObj [(''timeout'', JNum 5)])]))
     = (JObj [(''name'', JStr ''foo''), (''value'', JStr ''bar''),
              (''requestOptions'', JObj [(''timeout'', JNum 5)])])"
    by code_simp
  have run1: "fst (generateFunction (default_config transport_ok) (default_client (JStr ''tok''))
          \<lparr>cmd_method = ''PUT'', cmd_path = ''/secret/{{name}}'', cmd_schema = None\<rparr>
          (JObj [(''name'', JStr ''foo''), (''value'', JStr ''bar''),
              (''requestOptions'', JObj [(''timeout'', JNum 5)])]))
     = [Validated (JObj [(''timeout'', JNum 5), (''method'', JStr ''PUT''),
          (''path'', JStr ''/secret/{{name}}''),
          (''json'', JObj [(''name'', JStr ''foo''), (''value'', JStr ''bar''),
              (''requestOptions'', JObj [(''timeout'', JNum 5)])])]) requestSchema,
        Sent (JObj [(''timeout'', JNum 5), (''method'', JStr ''PUT''),
          (''path'', JStr ''/secret/{{name}}''),
          (''json'', JObj [(''name'', JStr ''foo''), (''value'', JStr ''bar''),
              (''requestOptions'', JObj [(''timeout'', JNum 5)])]),
          (''headers'', JObj [(''X-Vault-Token'', JStr ''tok'')]),
          (''uri'', JStr ''http://127.0.0.1:8200/v1/secret/foo'')])]"
    by code_simp
  have r2: "req \<lparr>req = JObj [(''type'', JStr ''object'')],
             query = JObj [(''properties'', JObj [(''list'', JObj [])])]\<rparr> \<noteq> JUndefined" by simp
  have t2: "tv4 (default_config transport_ok) (given_args (JObj [(''name'', JStr ''foo''), (''list'', JBool True),
                 (''requestOptions'', JObj [(''timeout'', JNum 5),
                    (''headers'', JObj [(''X-Vault-Token'', JStr ''mine'')])])]))
      (JObj [(''type'', JStr ''object'')]) = None"
    by code_simp
  have e2: "extendOptions \<lparr>cmd_method = ''GET'', cmd_path = ''/secret/{{name}}'',
           cmd_schema = Some \<lparr>req = JObj [(''type'', JStr ''object'')],
             query = JObj [(''properties'', JObj [(''list'', JObj [])])]\<rparr>\<rparr>
      (generated_options (default_config transport_ok) \<lparr>cmd_method = ''GET'', cmd_path = ''/secret/{{name}}'',
           cmd_schema = Some \<lparr>req = JObj [(''type'', JStr ''object'')],
             query = JObj [(''properties'', JObj [(''list'', JObj [])])]\<rparr>\<rparr>
          (given_args (JObj [(''name'', JStr ''foo''), (''list'', JBool True),
                 (''requestOptions'', JObj [(''timeout'', JNum 5),
                    (''headers'', JObj [(''X-Vault-Token'', JStr ''mine'')])])])))
     = Resolves [(''timeout'', JNum 5), (''headers'', JObj [(''X-Vault-Token'', JStr ''mine'')]),
          (''method'', JStr ''GET''), (''path'', JStr ''/secret/{{name}}?list=true''),
          (''json'', JObj [(''name'', JStr ''foo''), (''list'', JBool True),
                 (''requestOptions'', JObj [(''timeout'', JNum 5),
                    (''headers'', JObj [(''X-Vault-Token'', JStr ''mine'')])])])]"
    by code_simp
  have v2: "tv4 (default_config transport_ok) (JObj [(''timeout'', JNum 5), (''headers'', JObj [(''X-Vault-Token'', JStr ''mine'')]),
          (''method'', JStr ''GET''), (''path'', JStr ''/secret/{{name}}?list=true''),
          (''json'', JObj [(''name'', JStr ''foo''), (''list'', JBool True),
                 (''requestOptions'', JObj [(''timeout'', JNum 5),
                    (''headers'', JObj [(''X-Vault-Token'', JStr ''mine'')])])])]) requestSchema = None"
    by code_simp
  have u2: "build_uri (default_config transport_ok) (default_client (JStr ''tok'')) (JObj [(''timeout'', JNum 5), (''headers'', JObj [(''X-Vault-Token'', JStr ''mine'')]),
          (''method'', JStr ''GET''), (''path'', JStr ''/secret/{{name}}?list=true''),
          (''json'', JObj [(''name'', JStr ''foo''), (''list'', JBool True),
                 (''requestOptions'', JObj [(''timeout'', JNum 5),
                    (''headers'', JObj [(''X-Vault-Token'', JStr ''mine'')])])])])
     = Inr ''http://127.0.0.1:8200/v1/secret/foo?list=true''"
    by code_simp
  have h2: "writable_headers (js_get (JObj [(''timeout'', JNum 5), (''headers'', JObj [(''X-Vault-Token'', JStr ''mine'')]),
          (''method'', JStr ''GET''), (''path'', JStr ''/secret/{{name}}?list=true''),
          (''json'', JObj [(''name'', JStr ''foo''), (''list'', JBool True),
                 (''requestOptions'', JObj [(''timeout'', JNum 5),
                    (''headers'', JObj [(''X-Vault-Token'', JStr ''mine'')])])])]) ''headers'')"
    by code_simp
  have a2: "args_when_sent (default_client (JStr ''tok'')) (given_args (JObj [(''name'', JStr ''foo''), (''list'', JBool True),
                 (''requestOptions'', JObj [(''timeout'', JNum 5),
                    (''headers'', JObj [(''X-Vault-Token'', JStr ''mine'')])])]))
     = (JObj [(''name'', JStr ''foo''), (''list'', JBool True),
                 (''requestOptions'', JObj [(''timeout'', JNum 5),
                    (''headers'', JObj [(''X-Vault-Token'', JStr ''tok'')])])])"
    by code_simp
  have run2: "fst (generateFunction (default_config transport_ok) (default_client (JStr ''tok''))
          \<lparr>cmd_method = ''GET'', cmd_path = ''/secret/{{name}}'',
           cmd_schema = Some \<lparr>req = JObj [(''type'', JStr ''object'')],
             query = JObj [(''properties'', JObj [(''list'', JObj [])])]\<rparr>\<rparr>
          (JObj [(''name'', JStr ''foo''), (''list'', JBool True),
                 (''requestOptions'', JObj [(''timeout'', JNum 5),
                    (''headers'', JObj [(''X-Vault-Token'', JStr ''mine'')])])]))
     = [Validated (JObj [(''name'', JStr ''foo''), (''list'', JBool True),
                 (''requestOptions'', JObj [(''timeout'', JNum 5),
                    (''headers'', JObj [(''X-Vault-Token'', JStr ''mine'')])])]) (JObj [(''type'', JStr ''object'')]),
        Validated (JObj [(''name'', JStr ''foo''), (''list'', JBool True),
                 (''requestOptions'', JObj [(''timeout'', JNum 5),
                    (''headers'', JObj [(''X-Vault-Token'', JStr ''mine'')])])])
          (JObj [(''properties'', JObj [(''list'', JObj [])])]),
        Validated (JObj [(''timeout'', JNum 5), (''headers'', JObj [(''X-Vault-Token'', JStr ''mine'')]),
          (''method'', JStr ''GET''), (''path'', JStr ''/secret/{{name}}?list=true''),
          (''json'', JObj [(''name'', JStr ''foo''), (''list'', JBool True),
                 (''requestOptions'', JObj [(''timeout'', JNum 5),
                    (''headers'', JObj [(''X-Vault-Token'', JStr ''mine'')])])])]) requestSchema,
        Sent (JObj [(''timeout'', JNum 5), (''headers'', JObj [(''X-Vault-Token'', JStr ''tok'')]),
          (''method'', JStr ''GET''), (''path'', JStr ''/secret/{{name}}?list=true''),
          (''json'', JObj [(''name'', JStr ''foo''), (''list'', JBool True),
                 (''requestOptions'', JObj [(''timeout'', JNum 5),
                    (''headers'', JObj [(''X-Vault-Token'', JStr ''tok'')])])]),
          (''uri'', JStr ''http://127.0.0.1:8200/v1/secret/foo?list=true'')])]"
    by code_simp
  show ?thesis
    using
      generated_sends_whole_args [where cfg = "default_config transport_ok"
        and cl = "default_client (JStr ''tok'')"
        and conf = "\<lparr>cmd_method = ''PUT'', cmd_path = ''/secret/{{name}}'', cmd_schema = None\<rparr>"
        and arg = "JObj [(''name'', JStr ''foo''), (''value'', JStr ''bar''),
              (''requestOptions'', JObj [(''timeout'', JNum 5)])]"
        and uri = "''http://127.0.0.1:8200/v1/secret/foo''"]
      generated_sends_whole_args [where cfg = "default_config transport_ok"
        and cl = "default_client (JStr ''tok'')"
        and conf = "\<lparr>cmd_method = ''GET'', cmd_path = ''/secret/{{name}}'',
           cmd_schema = Some \<lparr>req = JObj [(''type'', JStr ''object'')],
             query = JObj [(''properties'', JObj [(''list'', JObj [])])]\<rparr>\<rparr>"
        and sch = "\<lparr>req = JObj [(''type'', JStr ''object'')],
             query = JObj [(''properties'', JObj [(''list'', JObj [])])]\<rparr>"
        and arg = "JObj [(''name'', JStr ''foo''), (''list'', JBool True),
                 (''requestOptions'', JObj [(''timeout'', JNum 5),
                    (''headers'', JObj [(''X-Vault-Token'', JStr ''mine'')])])]"
        and ext = "[(''timeout'', JNum 5), (''headers'', JObj [(''X-Vault-Token'', JStr ''mine'')]),
          (''method'', JStr ''GET''), (''path'', JStr ''/secret/{{name}}?list=true''),
          (''json'', JObj [(''name'', JStr ''foo''), (''list'', JBool True),
                 (''requestOptions'', JObj [(''timeout'', JNum 5),
                    (''headers'', JObj [(''X-Vault-Token'', JStr ''mine'')])])])]"
        and uri' = "''http://127.0.0.1:8200/v1/secret/foo?list=true''"]
    by (simp add: o1 v1 u1 h1 a1 run1 t2 e2 v2 u2 h2 a2 run2)
qed

text \<open>
  Claim C10 as stated fails. With \<^verbatim>\<open>requestOptions.headers\<close> given in the argument, the
  body that goes out is not the argument that was passed: the token has been written
  into the headers inside it.
\<close>

theorem generated_body_counterexample:
  "generateFunction (default_config transport_ok) (default_client (JStr ''tok''))
       \<lparr>cmd_method = ''GET'', cmd_path = ''/secret/{{name}}'', cmd_schema = None\<rparr>
       (JObj [(''name'', JStr ''foo''),
              (''requestOptions'', JObj [(''headers'', JObj [(''Accept'', JStr ''*/*'')])])])
     = ([Validated (JObj [(''headers'', JObj [(''Accept'', JStr ''*/*'')]),
           (''method'', JStr ''GET''), (''path'', JStr ''/secret/{{name}}''),
           (''json'', JObj [(''name'', JStr ''foo''),
              (''requestOptions'', JObj [(''headers'', JObj [(''Accept'', JStr ''*/*'')])])])]) requestSchema,
         Sent (JObj [(''headers'', JObj [(''Accept'', JStr ''*/*''), (''X-Vault-Token'', JStr ''tok'')]),
           (''method'', JStr ''GET''), (''path'', JStr ''/secret/{{name}}''),
           (''json'', JObj [(''name'', JStr ''foo''),
              (''requestOptions'', JObj [(''headers'',
                 JObj [(''Accept'', JStr ''*/*''), (''X-Vault-Token'', JStr ''tok'')])])]),
           (''uri'', JStr ''http://127.0.0.1:8200/v1/secret/foo'')])],
        Resolves (JObj []))
   \<and> (JObj [(''name'', JStr ''foo''),
              (''requestOptions'', JObj [(''headers'',
                 JObj [(''Accept'', JStr ''*/*''), (''X-Vault-Token'', JStr ''tok'')])])])
     \<noteq> (JObj [(''name'', JStr ''foo''),
              (''requestOptions'', JObj [(''headers'', JObj [(''Accept'', JStr ''*/*'')])])])"
  by code_simp

text \<open>
  A payload that fails the request schema of its operation rejects with the validator's
  error, and nothing is sent.
\<close>

lemma request_schema_failure_blocks:
  assumes "cmd_schema conf = Some sch" "req sch \<noteq> JUndefined" "arg \<noteq> JNull"
    and "tv4 cfg (if arg = JUndefined then JObj [] else arg) (req sch) = Some err"
  shows "snd (generateFunction cfg cl conf arg) = Rejects (ValidationError err)
       \<and> (\<forall>sent. Sent sent \<notin> set (fst (generateFunction cfg cl conf arg)))"
  using assms
  by (auto simp: generateFunction_def Let_def then_io_def then_ignored_def validate_def
      strict_ne_def strict_eq_def split: option.splits)

text \<open>
  Claim C2 does not hold for the query schema. Line 190 passes the deferred of the
  second validation to \<^verbatim>\<open>then\<close>, which ignores an argument that is not a function. Here
  the payload fails the query schema of the operation (\<^verbatim>\<open>list\<close> must be a string), and the
  request is sent all the same.
\<close>

theorem query_schema_failure_is_sent:
  "tv4_validate (JObj [(''list'', JBool True)])
       (JObj [(''type'', JStr ''object''),
              (''properties'', JObj [(''list'', JObj [(''type'', JStr ''string'')])])])
     = Some (Tv4Error ''Invalid type: boolean (expected string)'' ''/list'')
   \<and> generateFunction (default_config transport_ok) (default_client (JStr ''tok''))
       \<lparr>cmd_method = ''GET'', cmd_path = ''/sys/policy'',
        cmd_schema = Some \<lparr>req = JUndefined,
          query = JObj [(''type'', JStr ''object''),
              (''properties'', JObj [(''list'', JObj [(''type'', JStr ''string'')])])]\<rparr>\<rparr>
       (JObj [(''list'', JBool True)])
     = ([Validated (JObj [(''list'', JBool True)])
           (JObj [(''type'', JStr ''object''),
              (''properties'', JObj [(''list'', JObj [(''type'', JStr ''string'')])])]),
         Validated (JObj [(''method'', JStr ''GET''), (''path'', JStr ''/sys/policy?list=true''),
                          (''json'', JObj [(''list'', JBool True)])]) requestSchema,
         Sent (JObj [(''method'', JStr ''GET''), (''path'', JStr ''/sys/policy?list=true''),
                     (''json'', JObj [(''list'', JBool True)]),
                     (''headers'', JObj [(''X-Vault-Token'', JStr ''tok'')]),
                     (''uri'', JStr ''http://127.0.0.1:8200/v1/sys/policy?list=true'')])],
        Resolves (JObj []))"
  by code_simp

section \<open>The URI of a request\<close>




















end
